theory Spec2Isabelle
  imports Complex_Main "HOL-Library.Word" "HOL-Library.Multiset"
begin

unbundle bit_operations_syntax

section \<open>Common declarations\<close>

text \<open>
  The status codes returned by the operations of the library (the enumeration itself is
  declared in \<^verbatim>\<open>spla/config.hpp\<close>; these are the codes the sources under
  consideration return, together with the remaining codes of the public enumeration).
\<close>

datatype Status = Ok | Error | InvalidArgument | InvalidState | NotImplemented
  | CompilationError | DeviceError | OutOfMemory | Aborted | Failed

text \<open>
  Undefined behaviour of the C++ source (a null pointer that is dereferenced, an index
  past the end of an array) is a value of its own, so that it is never silently
  identified with a normal result.
\<close>

datatype fault = NullDeref | OutOfBounds

section \<open>Typed matrix: \<^verbatim>\<open>src/core/tmatrix.hpp\<close>\<close>

subsection \<open>Bytes, memory views and arrays of 32-bit elements\<close>

text \<open>
  \<^verbatim>\<open>TMatrix<T>\<close> is instantiated at \<^verbatim>\<open>T_INT\<close>, \<^verbatim>\<open>T_UINT\<close> and
  \<^verbatim>\<open>T_FLOAT\<close>. All three are 32 bits wide, as are the \<^verbatim>\<open>uint\<close> keys, so an
  element is modelled by its 32-bit object representation. A \<^verbatim>\<open>MemView\<close> is a
  sized byte buffer: \<^verbatim>\<open>get_size()\<close> is its length.
\<close>

type_synonym byte = "8 word"
type_synonym T = "32 word"
type_synonym MemView = "byte list"

definition key_size :: nat where
  "key_size = 4"

definition value_size :: nat where
  "value_size = 4"

text \<open>Object representation of a 32-bit element (little endian) and its inverse.\<close>

definition bytes_of_uint :: "32 word \<Rightarrow> byte list" where
  "bytes_of_uint w = [ucast w, ucast (drop_bit 8 w), ucast (drop_bit 16 w), ucast (drop_bit 24 w)]"

fun uint_of_bytes :: "byte list \<Rightarrow> 32 word" where
  "uint_of_bytes [b0, b1, b2, b3] =
     ucast b0 OR push_bit 8 (ucast b1) OR push_bit 16 (ucast b2) OR push_bit 24 (ucast b3)"
| "uint_of_bytes _ = 0"

text \<open>The bytes of a \<^verbatim>\<open>std::vector\<close> of 32-bit elements, as \<^verbatim>\<open>data()\<close> exposes them.\<close>

definition store_array :: "32 word list \<Rightarrow> byte list" where
  "store_array ws = concat (map bytes_of_uint ws)"

text \<open>The \<open>n\<close> elements that occupy the first \<open>4 * n\<close> bytes of a buffer.\<close>

fun load_array :: "nat \<Rightarrow> byte list \<Rightarrow> 32 word list" where
  "load_array 0 bs = []"
| "load_array (Suc n) bs = uint_of_bytes (take 4 bs) # load_array n (drop 4 bs)"

text \<open>\<^verbatim>\<open>MemView::read(offset, size, dst)\<close>: the bytes copied to the destination.\<close>

definition MemView_read :: "nat \<Rightarrow> nat \<Rightarrow> MemView \<Rightarrow> byte list" where
  "MemView_read offset size_bytes view = take size_bytes (drop offset view)"

text \<open>
  \<^verbatim>\<open>MemView::make(ptr, size, false)\<close> over the data of an array: a view of the first
  \<open>size\<close> bytes of the array. The three arrays of a coordinate block have the same number
  of elements, so the views that \<^verbatim>\<open>read\<close> makes never extend past their array.
\<close>

definition MemView_make :: "32 word list \<Rightarrow> nat \<Rightarrow> MemView" where
  "MemView_make arr size_bytes = take size_bytes (store_array arr)"

subsection \<open>Storage formats and the storage bundle\<close>

datatype FormatMatrix = CpuLil | CpuDok | CpuCoo | CpuCsr | AccCoo | AccCsr

text \<open>
  The decorations of the storage bundle. The list of lists and the dictionary of keys
  carry the operator that resolves duplicates; a freshly constructed one keeps the
  second argument.
\<close>

record CpuLil_t =
  lil_Ar :: "(nat \<times> T) list list"
  lil_reduce :: "T \<Rightarrow> T \<Rightarrow> T"

record CpuDok_t =
  dok_Ax :: "(nat \<times> nat) \<rightharpoonup> T"
  dok_reduce :: "T \<Rightarrow> T \<Rightarrow> T"

record CpuCoo_t =
  coo_Ai :: "32 word list"
  coo_Aj :: "32 word list"
  coo_Ax :: "T list"
  coo_values :: "32 word"

text \<open>
  The storage bundle of a matrix. A decoration that has not been constructed yet is
  represented by its default-constructed value; \<open>valid\<close> is the set of formats whose
  decoration holds the current content of the matrix.
\<close>

record Storage =
  n_rows :: nat
  n_cols :: nat
  fill_value :: T
  valid :: "FormatMatrix set"
  lil :: CpuLil_t
  dok :: CpuDok_t
  coo :: CpuCoo_t

record TMatrix =
  m_storage :: Storage
  m_label :: string

text \<open>
  The conversions of the storage manager: each fills one decoration from the decorations
  of the bundle that are valid. The table of conversions is registered by
  \<^verbatim>\<open>register_formats_matrix\<close>, outside the sources at hand, and is a parameter here.
\<close>

record Converter =
  to_lil :: "Storage \<Rightarrow> CpuLil_t"
  to_dok :: "Storage \<Rightarrow> CpuDok_t"
  to_coo :: "Storage \<Rightarrow> CpuCoo_t"

definition convert :: "Converter \<Rightarrow> FormatMatrix \<Rightarrow> Storage \<Rightarrow> Storage" where
  "convert cv fmt s =
     (case fmt of
        CpuLil \<Rightarrow> s \<lparr>lil := to_lil cv s\<rparr>
      | CpuDok \<Rightarrow> s \<lparr>dok := to_dok cv s\<rparr>
      | CpuCoo \<Rightarrow> s \<lparr>coo := to_coo cv s\<rparr>
      | _ \<Rightarrow> s)"

text \<open>
  Modelled from the spec: \<^verbatim>\<open>StorageManagerMatrix::validate_rw\<close>,
  \<^verbatim>\<open>validate_rwd\<close> and \<^verbatim>\<open>validate_ctor\<close> (\<^verbatim>\<open>storage/storage_manager.hpp\<close> is not
  among the sources). A read-write validation makes the target format valid, converting
  when it is stale, and marks the other formats stale. A write-discard validation marks
  every format stale and makes the target format valid and empty. A constructing
  validation builds the decoration lazily and moves no data.
\<close>

definition manager_validate_rw :: "Converter \<Rightarrow> FormatMatrix \<Rightarrow> Storage \<Rightarrow> Storage" where
  "manager_validate_rw cv fmt s =
     (if fmt \<in> valid s then s else convert cv fmt s) \<lparr>valid := {fmt}\<rparr>"

definition discard :: "FormatMatrix \<Rightarrow> Storage \<Rightarrow> Storage" where
  "discard fmt s =
     (case fmt of
        CpuLil \<Rightarrow> s \<lparr>lil := (lil s) \<lparr>lil_Ar := replicate (n_rows s) []\<rparr>\<rparr>
      | CpuDok \<Rightarrow> s \<lparr>dok := (dok s) \<lparr>dok_Ax := Map.empty\<rparr>\<rparr>
      | CpuCoo \<Rightarrow> s \<lparr>coo := \<lparr>coo_Ai = [], coo_Aj = [], coo_Ax = [], coo_values = 0\<rparr>\<rparr>
      | _ \<Rightarrow> s)"

definition manager_validate_rwd :: "FormatMatrix \<Rightarrow> Storage \<Rightarrow> Storage" where
  "manager_validate_rwd fmt s = (discard fmt s) \<lparr>valid := {fmt}\<rparr>"

definition manager_validate_ctor :: "FormatMatrix \<Rightarrow> Storage \<Rightarrow> Storage" where
  "manager_validate_ctor fmt s = s"

subsection \<open>The operations of \<^verbatim>\<open>TMatrix\<close>\<close>

definition validate_rw :: "Converter \<Rightarrow> FormatMatrix \<Rightarrow> TMatrix \<Rightarrow> TMatrix" where
  "validate_rw cv fmt m = m \<lparr>m_storage := manager_validate_rw cv fmt (m_storage m)\<rparr>"

definition validate_rwd :: "FormatMatrix \<Rightarrow> TMatrix \<Rightarrow> TMatrix" where
  "validate_rwd fmt m = m \<lparr>m_storage := manager_validate_rwd fmt (m_storage m)\<rparr>"

definition validate_ctor :: "FormatMatrix \<Rightarrow> TMatrix \<Rightarrow> TMatrix" where
  "validate_ctor fmt m = m \<lparr>m_storage := manager_validate_ctor fmt (m_storage m)\<rparr>"

definition is_valid :: "FormatMatrix \<Rightarrow> TMatrix \<Rightarrow> bool" where
  "is_valid fmt m = (fmt \<in> valid (m_storage m))"

definition get_lil :: "TMatrix \<Rightarrow> CpuLil_t" where
  "get_lil m = lil (m_storage m)"

definition get_dok :: "TMatrix \<Rightarrow> CpuDok_t" where
  "get_dok m = dok (m_storage m)"

definition get_coo :: "TMatrix \<Rightarrow> CpuCoo_t" where
  "get_coo m = coo (m_storage m)"

definition get_fill_value :: "TMatrix \<Rightarrow> T" where
  "get_fill_value m = fill_value (m_storage m)"

definition set_lil_reduce :: "(T \<Rightarrow> T \<Rightarrow> T) \<Rightarrow> TMatrix \<Rightarrow> TMatrix" where
  "set_lil_reduce f m =
     m \<lparr>m_storage := (m_storage m) \<lparr>lil := (lil (m_storage m)) \<lparr>lil_reduce := f\<rparr>\<rparr>\<rparr>"

definition set_dok_reduce :: "(T \<Rightarrow> T \<Rightarrow> T) \<Rightarrow> TMatrix \<Rightarrow> TMatrix" where
  "set_dok_reduce f m =
     m \<lparr>m_storage := (m_storage m) \<lparr>dok := (dok (m_storage m)) \<lparr>dok_reduce := f\<rparr>\<rparr>\<rparr>"

definition set_coo :: "CpuCoo_t \<Rightarrow> TMatrix \<Rightarrow> TMatrix" where
  "set_coo c m = m \<lparr>m_storage := (m_storage m) \<lparr>coo := c\<rparr>\<rparr>"

text \<open>
  \<^verbatim>\<open>TMatrix::set_reduce\<close>. The argument is the result of
  \<^verbatim>\<open>cast_safe<TOpBinary<T, T, T>>\<close> on the operator handed in: \<open>None\<close> when the
  handle is null or of another type, otherwise the function of the operator.
\<close>

definition set_reduce :: "(T \<Rightarrow> T \<Rightarrow> T) option \<Rightarrow> TMatrix \<Rightarrow> Status \<times> TMatrix" where
  "set_reduce resolve_duplicates m =
     (case resolve_duplicates of
        Some reduce \<Rightarrow>
          (let m1 = validate_ctor CpuLil m;
               m2 = set_lil_reduce reduce m1;
               m3 = validate_ctor CpuDok m2;
               m4 = set_dok_reduce reduce m3
           in (InvalidArgument, m4))
      | None \<Rightarrow> (InvalidArgument, m))"

text \<open>
  \<^verbatim>\<open>TMatrix::get_int\<close>, \<^verbatim>\<open>get_uint\<close> and \<^verbatim>\<open>get_float\<close>. The three differ in
  the type of the value they hand out only; the conversion from \<^verbatim>\<open>T\<close> to that type
  (implicit for the fill value, a \<^verbatim>\<open>static_cast\<close> for a stored entry) is the first
  argument. The result is the status, the value written to the output parameter, and the
  matrix after validation.
\<close>

definition get_int :: "(T \<Rightarrow> 'i) \<Rightarrow> Converter \<Rightarrow> TMatrix \<Rightarrow> nat \<Rightarrow> nat \<Rightarrow> Status \<times> 'i \<times> TMatrix" where
  "get_int to_int32 cv m row_id col_id =
     (let m1 = validate_rw cv CpuDok m;
          Ax = dok_Ax (get_dok m1);
          entry = Ax (row_id, col_id);
          val = to_int32 (get_fill_value m1)
      in (Ok, (case entry of Some x \<Rightarrow> to_int32 x | None \<Rightarrow> val), m1))"

definition get_uint :: "(T \<Rightarrow> 'u) \<Rightarrow> Converter \<Rightarrow> TMatrix \<Rightarrow> nat \<Rightarrow> nat \<Rightarrow> Status \<times> 'u \<times> TMatrix" where
  "get_uint to_uint32 cv m row_id col_id =
     (let m1 = validate_rw cv CpuDok m;
          Ax = dok_Ax (get_dok m1);
          entry = Ax (row_id, col_id);
          val = to_uint32 (get_fill_value m1)
      in (Ok, (case entry of Some x \<Rightarrow> to_uint32 x | None \<Rightarrow> val), m1))"

definition get_float :: "(T \<Rightarrow> 'f) \<Rightarrow> Converter \<Rightarrow> TMatrix \<Rightarrow> nat \<Rightarrow> nat \<Rightarrow> Status \<times> 'f \<times> TMatrix" where
  "get_float to_float cv m row_id col_id =
     (let m1 = validate_rw cv CpuDok m;
          Ax = dok_Ax (get_dok m1);
          entry = Ax (row_id, col_id);
          val = to_float (get_fill_value m1)
      in (Ok, (case entry of Some x \<Rightarrow> to_float x | None \<Rightarrow> val), m1))"

text \<open>
  \<^verbatim>\<open>TMatrix::build\<close>. The three views are asserted to be non-null.
  \<^verbatim>\<open>coo.values\<close> is a \<^verbatim>\<open>uint\<close>, the element count a \<^verbatim>\<open>size_t\<close>.
\<close>

definition build :: "MemView \<Rightarrow> MemView \<Rightarrow> MemView \<Rightarrow> TMatrix \<Rightarrow> Status \<times> TMatrix" where
  "build keys1 keys2 values m =
     (let elements_count = length keys1 div key_size in
      if elements_count \<noteq> length values div value_size then (InvalidArgument, m)
      else if elements_count * key_size \<noteq> length keys1 then (InvalidArgument, m)
      else if elements_count * key_size \<noteq> length keys2 then (InvalidArgument, m)
      else
        (let m1 = validate_rwd CpuCoo m;
             c = \<lparr>coo_Ai = load_array elements_count (MemView_read 0 (key_size * elements_count) keys1),
                  coo_Aj = load_array elements_count (MemView_read 0 (key_size * elements_count) keys2),
                  coo_Ax = load_array elements_count (MemView_read 0 (value_size * elements_count) values),
                  coo_values = of_nat elements_count\<rparr>
         in (Ok, set_coo c m1)))"

text \<open>
  \<^verbatim>\<open>TMatrix::read\<close>: the status, the three views handed out (keys1, keys2, values)
  and the matrix after validation.
\<close>

definition read :: "Converter \<Rightarrow> TMatrix \<Rightarrow> Status \<times> (MemView \<times> MemView \<times> MemView) \<times> TMatrix" where
  "read cv m =
     (let m1 = validate_rw cv CpuCoo m;
          c = get_coo m1;
          elements_count = length (coo_Ai c)
      in (Ok,
          (MemView_make (coo_Ai c) (key_size * elements_count),
           MemView_make (coo_Aj c) (key_size * elements_count),
           MemView_make (coo_Ax c) (value_size * elements_count)),
          m1))"

text \<open>The triples of a coordinate block, in storage order.\<close>

definition triples :: "CpuCoo_t \<Rightarrow> (32 word \<times> 32 word \<times> T) list" where
  "triples c = zip (coo_Ai c) (zip (coo_Aj c) (coo_Ax c))"

text \<open>A matrix as its constructor leaves it: only the dimensions are set.\<close>

definition TMatrix_new :: "nat \<Rightarrow> nat \<Rightarrow> TMatrix" where
  "TMatrix_new nr nc =
     \<lparr>m_storage = \<lparr>n_rows = nr, n_cols = nc, fill_value = 0, valid = {},
         lil = \<lparr>lil_Ar = [], lil_reduce = (\<lambda>a b. b)\<rparr>,
         dok = \<lparr>dok_Ax = Map.empty, dok_reduce = (\<lambda>a b. b)\<rparr>,
         coo = \<lparr>coo_Ai = [], coo_Aj = [], coo_Ax = [], coo_values = 0\<rparr>\<rparr>,
      m_label = []\<rparr>"

text \<open>A table of conversions that leaves every decoration as it is.\<close>

definition convert_none :: Converter where
  "convert_none = \<lparr>to_lil = lil, to_dok = dok, to_coo = coo\<rparr>"

section \<open>Masked vector assignment: \<^verbatim>\<open>src/cpu/cpu_v_assign.hpp\<close>\<close>

text \<open>
  The formats of a vector are \<^verbatim>\<open>FormatVector::CpuCoo\<close>, \<^verbatim>\<open>CpuDense\<close>,
  \<^verbatim>\<open>AccCoo\<close> and \<^verbatim>\<open>AccDense\<close>; the constructors carry the prefix \<open>Vec\<close> to keep them
  apart from the formats of a matrix.
\<close>

datatype FormatVector = VecCpuCoo | VecCpuDense | VecAccCoo | VecAccDense

record 'a CpuDenseVec =
  dn_Ax :: "'a list"

record 'a CpuCooVec =
  sp_values :: nat
  sp_Ai :: "nat list"
  sp_Ax :: "'a list"

text \<open>
  The storage bundle of a vector, with the same conventions as for a matrix: a
  decoration that has not been constructed is its default value, and \<open>v_valid\<close> is the
  set of formats that hold the current content.
\<close>

record 'a TVector =
  v_n_rows :: nat
  v_fill_value :: 'a
  v_valid :: "FormatVector set"
  v_dense :: "'a CpuDenseVec"
  v_coo :: "'a CpuCooVec"

text \<open>The conversions between the formats of a vector, registered outside the sources at hand.\<close>

record 'a VecConverter =
  to_dense :: "'a TVector \<Rightarrow> 'a CpuDenseVec"
  to_coo_vec :: "'a TVector \<Rightarrow> 'a CpuCooVec"

text \<open>
  Modelled from the spec: \<^verbatim>\<open>TVector::validate_rw\<close> and \<^verbatim>\<open>TVector::validate_rwd\<close>
  (\<^verbatim>\<open>core/tvector.hpp\<close> and the storage manager are not among the sources). The
  read-write validation makes the target format valid, converting when it is stale. The
  write-discard validation marks every format stale and makes the target format valid
  and empty; an empty dense array has \<open>n_rows\<close> positions, and a position without an
  entry holds the fill value of the vector.
\<close>

definition vec_validate_rw :: "'a VecConverter \<Rightarrow> FormatVector \<Rightarrow> 'a TVector \<Rightarrow> 'a TVector" where
  "vec_validate_rw cv fmt v =
     (if fmt \<in> v_valid v then v
      else (case fmt of
              VecCpuDense \<Rightarrow> v \<lparr>v_dense := to_dense cv v\<rparr>
            | VecCpuCoo \<Rightarrow> v \<lparr>v_coo := to_coo_vec cv v\<rparr>
            | _ \<Rightarrow> v)) \<lparr>v_valid := {fmt}\<rparr>"

definition vec_validate_rwd :: "FormatVector \<Rightarrow> 'a TVector \<Rightarrow> 'a TVector" where
  "vec_validate_rwd fmt v =
     (case fmt of
        VecCpuDense \<Rightarrow> v \<lparr>v_dense := \<lparr>dn_Ax = replicate (v_n_rows v) (v_fill_value v)\<rparr>\<rparr>
      | VecCpuCoo \<Rightarrow> v \<lparr>v_coo := \<lparr>sp_values = 0, sp_Ai = [], sp_Ax = []\<rparr>\<rparr>
      | _ \<Rightarrow> v) \<lparr>v_valid := {fmt}\<rparr>"

definition vec_is_valid :: "FormatVector \<Rightarrow> 'a TVector \<Rightarrow> bool" where
  "vec_is_valid fmt v = (fmt \<in> v_valid v)"

text \<open>
  The loop of \<^verbatim>\<open>execute_sp2dn\<close> over the entries \<open>idx\<close> of the sparse mask. The
  indices still to be visited are the fourth argument from the end. An access past the
  end of an array is undefined in the source and is the fault \<open>OutOfBounds\<close> here.
\<close>

fun sp2dn_loop ::
  "('a \<Rightarrow> 'a \<Rightarrow> 'a) \<Rightarrow> ('a \<Rightarrow> bool) \<Rightarrow> 'a \<Rightarrow> nat list \<Rightarrow> 'a list \<Rightarrow> nat list \<Rightarrow> 'a list
    \<Rightarrow> fault + 'a list" where
  "sp2dn_loop func_assign func_select assign_value Ai Ax [] r_Ax = Inr r_Ax"
| "sp2dn_loop func_assign func_select assign_value Ai Ax (idx # rest) r_Ax =
     (if idx < length Ai \<and> idx < length Ax then
        (let i = Ai ! idx; x = Ax ! idx in
         if func_select x then
           (if i < length r_Ax then
              sp2dn_loop func_assign func_select assign_value Ai Ax rest
                (r_Ax[i := func_assign (r_Ax ! i) assign_value])
            else Inl OutOfBounds)
         else sp2dn_loop func_assign func_select assign_value Ai Ax rest r_Ax)
      else Inl OutOfBounds)"

text \<open>The loop of \<^verbatim>\<open>execute_dn2dn\<close> over the indices \<open>i\<close> of the target.\<close>

fun dn2dn_loop ::
  "('a \<Rightarrow> 'a \<Rightarrow> 'a) \<Rightarrow> ('a \<Rightarrow> bool) \<Rightarrow> 'a \<Rightarrow> 'a list \<Rightarrow> nat list \<Rightarrow> 'a list \<Rightarrow> fault + 'a list" where
  "dn2dn_loop func_assign func_select assign_value mask_Ax [] r_Ax = Inr r_Ax"
| "dn2dn_loop func_assign func_select assign_value mask_Ax (i # rest) r_Ax =
     (if i < length mask_Ax then
        (if func_select (mask_Ax ! i) then
           (if i < length r_Ax then
              dn2dn_loop func_assign func_select assign_value mask_Ax rest
                (r_Ax[i := func_assign (r_Ax ! i) assign_value])
            else Inl OutOfBounds)
         else dn2dn_loop func_assign func_select assign_value mask_Ax rest r_Ax)
      else Inl OutOfBounds)"

text \<open>
  \<^verbatim>\<open>Algo_v_assign_masked_cpu::execute_sp2dn\<close> and \<^verbatim>\<open>execute_dn2dn\<close>. The task
  carries the target \<open>r\<close>, the mask, the scalar value and the two operators; the result
  is the status together with the target and the mask as the call leaves them.
\<close>

definition execute_sp2dn ::
  "'a VecConverter \<Rightarrow> 'a TVector \<Rightarrow> 'a TVector \<Rightarrow> 'a \<Rightarrow> ('a \<Rightarrow> 'a \<Rightarrow> 'a) \<Rightarrow> ('a \<Rightarrow> bool)
    \<Rightarrow> fault + (Status \<times> 'a TVector \<times> 'a TVector)" where
  "execute_sp2dn cv r mask_v value op_assign op_select =
     (let assign_value = value;
          r1 = vec_validate_rwd VecCpuDense r;
          mask1 = vec_validate_rw cv VecCpuCoo mask_v;
          p_r_dense = v_dense r1;
          p_mask_sparse = v_coo mask1;
          N = sp_values p_mask_sparse
      in case sp2dn_loop op_assign op_select assign_value (sp_Ai p_mask_sparse)
                (sp_Ax p_mask_sparse) [0..<N] (dn_Ax p_r_dense) of
           Inl f \<Rightarrow> Inl f
         | Inr Ax' \<Rightarrow> Inr (Ok, r1 \<lparr>v_dense := \<lparr>dn_Ax = Ax'\<rparr>\<rparr>, mask1))"

definition execute_dn2dn ::
  "'a VecConverter \<Rightarrow> 'a TVector \<Rightarrow> 'a TVector \<Rightarrow> 'a \<Rightarrow> ('a \<Rightarrow> 'a \<Rightarrow> 'a) \<Rightarrow> ('a \<Rightarrow> bool)
    \<Rightarrow> fault + (Status \<times> 'a TVector \<times> 'a TVector)" where
  "execute_dn2dn cv r mask_v value op_assign op_select =
     (let assign_value = value;
          r1 = vec_validate_rwd VecCpuDense r;
          mask1 = vec_validate_rw cv VecCpuDense mask_v;
          p_r_dense = v_dense r1;
          p_mask_dense = v_dense mask1;
          N = v_n_rows r1
      in case dn2dn_loop op_assign op_select assign_value (dn_Ax p_mask_dense)
                [0..<N] (dn_Ax p_r_dense) of
           Inl f \<Rightarrow> Inl f
         | Inr Ax' \<Rightarrow> Inr (Ok, r1 \<lparr>v_dense := \<lparr>dn_Ax = Ax'\<rparr>\<rparr>, mask1))"

text \<open>\<^verbatim>\<open>Algo_v_assign_masked_cpu::execute\<close>: the variant follows the valid format of the mask.\<close>

definition execute ::
  "'a VecConverter \<Rightarrow> 'a TVector \<Rightarrow> 'a TVector \<Rightarrow> 'a \<Rightarrow> ('a \<Rightarrow> 'a \<Rightarrow> 'a) \<Rightarrow> ('a \<Rightarrow> bool)
    \<Rightarrow> fault + (Status \<times> 'a TVector \<times> 'a TVector)" where
  "execute cv r mask_v value op_assign op_select =
     (if vec_is_valid VecCpuCoo mask_v then execute_sp2dn cv r mask_v value op_assign op_select
      else if vec_is_valid VecCpuDense mask_v then execute_dn2dn cv r mask_v value op_assign op_select
      else execute_sp2dn cv r mask_v value op_assign op_select)"

text \<open>A vector that holds the given dense array, and one that holds the given entries.\<close>

definition dense_vector :: "'a \<Rightarrow> 'a list \<Rightarrow> 'a TVector" where
  "dense_vector fill xs =
     \<lparr>v_n_rows = length xs, v_fill_value = fill, v_valid = {VecCpuDense},
      v_dense = \<lparr>dn_Ax = xs\<rparr>, v_coo = \<lparr>sp_values = 0, sp_Ai = [], sp_Ax = []\<rparr>\<rparr>"

definition coo_vector :: "nat \<Rightarrow> 'a \<Rightarrow> nat list \<Rightarrow> 'a list \<Rightarrow> 'a TVector" where
  "coo_vector n fill idxs xs =
     \<lparr>v_n_rows = n, v_fill_value = fill, v_valid = {VecCpuCoo},
      v_dense = \<lparr>dn_Ax = []\<rparr>, v_coo = \<lparr>sp_values = length idxs, sp_Ai = idxs, sp_Ax = xs\<rparr>\<rparr>"

text \<open>The status and the dense array of the target, as an execution leaves them.\<close>

definition assigned_Ax :: "fault + (Status \<times> 'a TVector \<times> 'a TVector) \<Rightarrow> fault + (Status \<times> 'a list)" where
  "assigned_Ax res =
     (case res of Inl f \<Rightarrow> Inl f | Inr (st, r', mask') \<Rightarrow> Inr (st, dn_Ax (v_dense r')))"

text \<open>The select operator \<open>x \<noteq> 0\<close>.\<close>

definition op_select_nonzero :: "int \<Rightarrow> bool" where
  "op_select_nonzero x = (x \<noteq> 0)"

text \<open>A table of conversions that leaves every decoration of a vector as it is.\<close>

definition vec_convert_none :: "'a VecConverter" where
  "vec_convert_none = \<lparr>to_dense = v_dense, to_coo_vec = v_coo\<rparr>"

section \<open>Element-wise vector addition: \<^verbatim>\<open>sources/expression/vector/SplaVectorEWiseAdd.cpp\<close>\<close>

text \<open>
  A block of a vector in coordinate format (\<^verbatim>\<open>VectorCOO\<close>): the dimension of the
  block, the number of stored values, the row indices and the values. A \<^verbatim>\<open>RefPtr\<close> to
  a block may be null and is an \<open>option\<close>.
\<close>

record 'a VectorCOO =
  blk_nrows :: nat
  blk_nvals :: nat
  blk_rows :: "nat list"
  blk_vals :: "'a list"

definition VectorCOO_Make :: "nat \<Rightarrow> nat \<Rightarrow> nat list \<Rightarrow> 'a list \<Rightarrow> 'a VectorCOO" where
  "VectorCOO_Make nrows nvals rows vals =
     \<lparr>blk_nrows = nrows, blk_nvals = nvals, blk_rows = rows, blk_vals = vals\<rparr>"

text \<open>
  The device primitives \<^verbatim>\<open>MaskByKey\<close> and \<^verbatim>\<open>Gather\<close> are defined in
  \<^verbatim>\<open>compute/SplaMaskByKey.hpp\<close> and \<^verbatim>\<open>compute/SplaGather.hpp\<close>, outside the sources
  at hand, and are parameters. \<open>MaskByKey mask_rows block_rows perm\<close> yields the keys that
  survive (their number is the count it returns) and the permutation after the call;
  \<open>Gather perm vals\<close> yields the values gathered through the permutation.
\<close>

type_synonym MaskByKey_t = "nat list \<Rightarrow> nat list \<Rightarrow> nat list \<Rightarrow> nat list \<times> nat list"
type_synonym 'a Gather_t = "nat list \<Rightarrow> 'a list \<Rightarrow> 'a list"

text \<open>
  The permutation indices of the values of \<open>a\<close> and of \<open>b\<close>: \<^verbatim>\<open>resize(nnz)\<close> followed
  by \<^verbatim>\<open>copy_n\<close> from a counting iterator that starts at \<open>0\<close>. Both fills are guarded by
  \<^verbatim>\<open>blockA.IsNotNull()\<close>; the second dereferences \<^verbatim>\<open>blockB\<close> inside the guard.
\<close>

definition fill_permA :: "'a VectorCOO option \<Rightarrow> nat list" where
  "fill_permA blockA =
     (case blockA of
        Some A \<Rightarrow> (let nnz = blk_nvals A in [0..<nnz])
      | None \<Rightarrow> [])"

definition fill_permB :: "'a VectorCOO option \<Rightarrow> 'a VectorCOO option \<Rightarrow> fault + nat list" where
  "fill_permB blockA blockB =
     (if blockA \<noteq> None then
        (case blockB of
           None \<Rightarrow> Inl NullDeref
         | Some B \<Rightarrow> (let nnz = blk_nvals B in Inr [0..<nnz]))
      else Inr [])"

text \<open>
  The local function \<^verbatim>\<open>applyMask\<close>: the permutation after the call and the rows
  handed out through \<^verbatim>\<open>out\<close> (\<open>None\<close> when \<^verbatim>\<open>out\<close> stays null).
\<close>

definition applyMask ::
  "MaskByKey_t \<Rightarrow> 'm VectorCOO option \<Rightarrow> 'a VectorCOO option \<Rightarrow> nat list
    \<Rightarrow> nat list \<times> nat list option" where
  "applyMask MaskByKey maskBlock block perm =
     (case block of
        None \<Rightarrow> (perm, None)
      | Some blk \<Rightarrow>
          (case maskBlock of
             None \<Rightarrow> (perm, Some (blk_rows blk))
           | Some mb \<Rightarrow>
               (let (tmpRows, perm') = MaskByKey (blk_rows mb) (blk_rows blk) perm
                in (perm', Some tmpRows))))"

text \<open>
  The local function \<^verbatim>\<open>setResult\<close>: the block stored into \<open>w\<close>. \<^verbatim>\<open>newVals\<close> is
  resized to \<open>nnz\<close> elements, which no statement has written yet: \<open>uninit k\<close> is the content
  of element \<open>k\<close> of such a buffer. \<^verbatim>\<open>Gather\<close> then writes the values it gathers over the
  front of the buffer; more values than the buffer has elements are a write past its end.
\<close>

definition setResult ::
  "'a Gather_t \<Rightarrow> (nat \<Rightarrow> 'a) \<Rightarrow> 'a VectorCOO \<Rightarrow> nat list \<Rightarrow> nat list \<Rightarrow> fault + 'a VectorCOO" where
  "setResult Gather uninit block rows perm =
     (let nnz = length rows;
          newRows = rows;
          newVals = map uninit [0..<nnz];
          gathered = Gather perm (blk_vals block)
      in if length gathered \<le> nnz then
           Inr (VectorCOO_Make (blk_nrows block) nnz newRows
                  (gathered @ drop (length gathered) newVals))
         else Inl OutOfBounds)"

text \<open>
  The task that \<^verbatim>\<open>VectorEWiseAdd::Process\<close> emplaces for one block row \<open>i\<close>: from
  the blocks \<open>i\<close> of the mask, of \<open>a\<close> and of \<open>b\<close> and the block \<open>i\<close> that \<open>w\<close> holds before
  the task to the block \<open>i\<close> that \<open>w\<close> holds after it. When both row sequences are
  present the task ends at the comment \<^verbatim>\<open>// todo: merge + reduce\<close> and has not written to
  \<open>w\<close>.
\<close>

definition Process_task ::
  "MaskByKey_t \<Rightarrow> 'a Gather_t \<Rightarrow> (nat \<Rightarrow> 'a) \<Rightarrow> 'm VectorCOO option \<Rightarrow> 'a VectorCOO option
    \<Rightarrow> 'a VectorCOO option \<Rightarrow> 'a VectorCOO option \<Rightarrow> fault + 'a VectorCOO option" where
  "Process_task MaskByKey Gather uninit maskBlock blockA blockB w_block =
     (let permA = fill_permA blockA in
      case fill_permB blockA blockB of
        Inl f \<Rightarrow> Inl f
      | Inr permB \<Rightarrow>
          (let (permA', rowsA) = applyMask MaskByKey maskBlock blockA permA;
               (permB', rowsB) = applyMask MaskByKey maskBlock blockB permB
           in if rowsA = None \<or> rowsB = None then
                (let w1 = None in
                 case (case (blockA, rowsA) of
                         (Some A, Some ra) \<Rightarrow> map_sum id Some (setResult Gather uninit A ra permA')
                       | _ \<Rightarrow> Inr w1) of
                   Inl f \<Rightarrow> Inl f
                 | Inr w2 \<Rightarrow>
                     (case (blockB, rowsB) of
                        (Some B, Some rb) \<Rightarrow> map_sum id Some (setResult Gather uninit B rb permB')
                      | _ \<Rightarrow> Inr w2))
              else Inr w_block))"

text \<open>
  \<^verbatim>\<open>VectorEWiseAdd::Process\<close>: one task for each block row of \<open>w\<close>. A storage is the
  function from the index of a block to the block; the mask may be null.
\<close>

definition Process ::
  "MaskByKey_t \<Rightarrow> 'a Gather_t \<Rightarrow> (nat \<Rightarrow> 'a) \<Rightarrow> nat \<Rightarrow> (nat \<Rightarrow> 'm VectorCOO option) option
    \<Rightarrow> (nat \<Rightarrow> 'a VectorCOO option) \<Rightarrow> (nat \<Rightarrow> 'a VectorCOO option)
    \<Rightarrow> (nat \<Rightarrow> 'a VectorCOO option) \<Rightarrow> (fault + 'a VectorCOO option) list" where
  "Process MaskByKey Gather uninit NblockRows mask_s a b w =
     map (\<lambda>i. Process_task MaskByKey Gather uninit
                (case mask_s of Some ms \<Rightarrow> ms i | None \<Rightarrow> None) (a i) (b i) (w i))
       [0..<NblockRows]"

text \<open>The operands of the element-wise addition of two sparse blocks used below.\<close>

definition ewise_a :: "real VectorCOO" where
  "ewise_a = VectorCOO_Make 3 2 [0, 2] [1, 3]"

definition ewise_b :: "real VectorCOO" where
  "ewise_b = VectorCOO_Make 3 2 [1, 2] [2, 5]"

definition ewise_b3 :: "real VectorCOO" where
  "ewise_b3 = VectorCOO_Make 3 3 [0, 1, 2] [2, 5, 7]"

section \<open>Matrix-market loader: \<^verbatim>\<open>include/spla-cpp/SplaUtils.hpp\<close>\<close>

text \<open>
  \<^verbatim>\<open>MatrixLoader<Value>::Load<FileValue>\<close> at value types that are not \<^verbatim>\<open>void\<close>. The
  loader throws \<^verbatim>\<open>std::logic_error\<close> with one of three messages; the first two carry
  the number of the line. Reading a variable that no statement has written is undefined
  in the source and is the outcome \<open>Indeterminate\<close> here.
\<close>

datatype load_error =
  RowIndexOutOfBounds nat
| ColumnIndexOutOfBounds nat
| InvalidNnz
| Indeterminate

record 'v MatrixLoader =
  mVals :: "'v list"
  mRows :: "nat list"
  mCols :: "nat list"
  mNrows :: nat
  mNcols :: nat

text \<open>
  Formatted extraction of an unsigned number (\<^verbatim>\<open>stream >> x\<close>) is part of the standard
  library and a parameter of the model. It has three outcomes. It succeeds with the
  number and the rest of the stream. Or the characters at hand are no number, or one
  that does not fit: the fail bit is set and a number is written to the variable (zero,
  or the largest value of the type). Or the stream has nothing left but blanks: the
  fail bit is set and the variable is not written at all. After a failure every later
  extraction from the same stream leaves its variable unwritten.
\<close>

datatype extracted = Extracted nat string | NotExtracted nat | Unwritten

type_synonym extractor = "string \<Rightarrow> extracted"

text \<open>
  The lines that successive calls of \<^verbatim>\<open>std::getline\<close> deliver: the stream is cut at
  every newline, and a newline at the very end starts no further line.
\<close>

fun lines_of :: "string \<Rightarrow> string list" where
  "lines_of [] = []"
| "lines_of (c # cs) =
     (if c = CHR 0x0A then [] # lines_of cs
      else (case lines_of cs of [] \<Rightarrow> [[c]] | l # ls \<Rightarrow> (c # l) # ls))"

text \<open>The test \<^verbatim>\<open>line[0] != '%'\<close> of the first loop; an empty line starts with a zero character.\<close>

definition is_comment :: "string \<Rightarrow> bool" where
  "is_comment line = (case line of [] \<Rightarrow> False | c # _ \<Rightarrow> c = CHR ''%'')"

text \<open>
  The content of \<^verbatim>\<open>line\<close> when the first loop ends: the first line that is no
  comment, or, when the stream ends before one is found, what the failed
  \<^verbatim>\<open>getline\<close> leaves in the variable (the last line read when the stream had already
  reached its end, the empty string otherwise).
\<close>

definition header_line :: "string \<Rightarrow> string" where
  "header_line input =
     (case dropWhile is_comment (lines_of input) of
        l # _ \<Rightarrow> l
      | [] \<Rightarrow> (if input \<noteq> [] \<and> last input \<noteq> CHR 0x0A then last (lines_of input) else []))"

text \<open>The lines that the second loop reads, and the value of \<^verbatim>\<open>lineN\<close> when it starts.\<close>

definition data_lines :: "string \<Rightarrow> string list" where
  "data_lines input = drop 1 (dropWhile is_comment (lines_of input))"

definition header_lineN :: "string \<Rightarrow> nat" where
  "header_lineN input = length (lines_of input) - length (data_lines input)"

text \<open>
  \<^verbatim>\<open>headerLineStream >> mNrows >> mNcols >> nnz\<close>, followed by the calls of
  \<^verbatim>\<open>reserve(nnz)\<close>. \<^verbatim>\<open>nnz\<close> is a local variable without an initialiser: when no
  extraction writes it, the calls of \<^verbatim>\<open>reserve\<close> read an indeterminate value, and the
  result is \<open>None\<close>. \<^verbatim>\<open>Size\<close> is an unsigned type declared in \<^verbatim>\<open>SplaConfig.hpp\<close>;
  its width is the length of the word type \<open>'s\<close>.
\<close>

definition read_header :: "extractor \<Rightarrow> string \<Rightarrow> (nat \<times> nat \<times> 's::len word) option" where
  "read_header extract_size line =
     (case extract_size line of
        Extracted nr s1 \<Rightarrow>
          (case extract_size s1 of
             Extracted nc s2 \<Rightarrow>
               (case extract_size s2 of
                  Extracted z s3 \<Rightarrow> Some (nr, nc, of_nat z)
                | NotExtracted z \<Rightarrow> Some (nr, nc, of_nat z)
                | Unwritten \<Rightarrow> None)
           | NotExtracted nc \<Rightarrow> None
           | Unwritten \<Rightarrow> None)
      | NotExtracted nr \<Rightarrow> None
      | Unwritten \<Rightarrow> None)"

text \<open>
  \<^verbatim>\<open>Index i, j; lineStream >> i >> j\<close>: what the two variables hold afterwards (\<open>None\<close>
  for a variable that no extraction has written) and the rest of the stream (\<open>None\<close> once
  the fail bit is set).
\<close>

definition read_indices :: "extractor \<Rightarrow> string \<Rightarrow> nat option \<times> nat option \<times> string option" where
  "read_indices extract_index line =
     (case extract_index line of
        Extracted i s1 \<Rightarrow>
          (case extract_index s1 of
             Extracted j s2 \<Rightarrow> (Some i, Some j, Some s2)
           | NotExtracted j \<Rightarrow> (Some i, Some j, None)
           | Unwritten \<Rightarrow> (Some i, None, None))
      | NotExtracted i \<Rightarrow> (Some i, None, None)
      | Unwritten \<Rightarrow> (None, None, None))"

text \<open>
  \<^verbatim>\<open>FileValue value; lineStream >> value\<close>, converted to \<^verbatim>\<open>Value\<close>: the extraction
  of a value is a parameter too, \<open>None\<close> when it leaves \<^verbatim>\<open>value\<close> unwritten, which it
  does on a stream whose fail bit is set.
\<close>

definition read_value :: "(string \<Rightarrow> 'v option) \<Rightarrow> string option \<Rightarrow> 'v option" where
  "read_value extract_value s = (case s of None \<Rightarrow> None | Some t \<Rightarrow> extract_value t)"

text \<open>
  The second loop of \<^verbatim>\<open>Load\<close>, over the lines still to be read. The state is
  \<^verbatim>\<open>lineN\<close>, \<^verbatim>\<open>nnz\<close> and the three arrays. The two tests read \<open>i\<close> and then \<open>j\<close>; the value
  is read only when it is appended.
\<close>

fun parse_lines ::
  "extractor \<Rightarrow> (string \<Rightarrow> 'v option) \<Rightarrow> bool \<Rightarrow> bool \<Rightarrow> nat \<Rightarrow> nat \<Rightarrow> string list \<Rightarrow> nat
    \<Rightarrow> 's::len word \<Rightarrow> nat list \<Rightarrow> nat list \<Rightarrow> 'v list
    \<Rightarrow> load_error + ('s word \<times> nat list \<times> nat list \<times> 'v list)" where
  "parse_lines extract_index extract_value removeSelfLoops ignoreValues nrows ncols []
      lineN nnz rows cols vals = Inr (nnz, rows, cols, vals)"
| "parse_lines extract_index extract_value removeSelfLoops ignoreValues nrows ncols (line # rest)
      lineN nnz rows cols vals =
     (case read_indices extract_index line of
        (None, cj, s) \<Rightarrow> Inl Indeterminate
      | (Some i, cj, s) \<Rightarrow>
          (if \<not> (1 \<le> i \<and> i \<le> nrows) then Inl (RowIndexOutOfBounds (lineN + 1))
           else
             (case cj of
                None \<Rightarrow> Inl Indeterminate
              | Some j \<Rightarrow>
                  (if \<not> (1 \<le> j \<and> j \<le> ncols) then Inl (ColumnIndexOutOfBounds (lineN + 1))
                   else if removeSelfLoops \<and> i = j then
                     parse_lines extract_index extract_value removeSelfLoops ignoreValues nrows
                       ncols rest (lineN + 1) (nnz - 1) rows cols vals
                   else if ignoreValues then
                     parse_lines extract_index extract_value removeSelfLoops ignoreValues nrows
                       ncols rest (lineN + 1) nnz (rows @ [i]) (cols @ [j]) vals
                   else
                     (case read_value extract_value s of
                        None \<Rightarrow> Inl Indeterminate
                      | Some v \<Rightarrow>
                          parse_lines extract_index extract_value removeSelfLoops ignoreValues
                            nrows ncols rest (lineN + 1) nnz (rows @ [i]) (cols @ [j])
                            (vals @ [v]))))))"

text \<open>\<^verbatim>\<open>DoubleEdges\<close>: the mirror image of every edge that is no loop is appended.\<close>

definition DoubleEdges_step :: "'v MatrixLoader \<Rightarrow> nat \<Rightarrow> 'v MatrixLoader" where
  "DoubleEdges_step ld i =
     (if mRows ld ! i \<noteq> mCols ld ! i then
        ld \<lparr>mRows := mRows ld @ [mCols ld ! i],
            mCols := mCols ld @ [mRows ld ! i],
            mVals := mVals ld @ [mVals ld ! i]\<rparr>
      else ld)"

definition DoubleEdges :: "'v MatrixLoader \<Rightarrow> 'v MatrixLoader" where
  "DoubleEdges ld = (let nnz = length (mRows ld) in foldl DoubleEdges_step ld [0..<nnz])"


text \<open>
  \<^verbatim>\<open>Load\<close> on a fresh loader. The messages on the standard output and the degree
  statistics, which are computed into local variables for those messages only, are left
  out.
\<close>

definition Load ::
  "extractor \<Rightarrow> extractor \<Rightarrow> (string \<Rightarrow> 'v::zero option) \<Rightarrow> 's::len itself \<Rightarrow> string \<Rightarrow> bool \<Rightarrow> bool
    \<Rightarrow> bool \<Rightarrow> load_error + 'v MatrixLoader" where
  "Load extract_size extract_index extract_value size_type input makeUndirected removeSelfLoops
      ignoreValues =
     (case read_header extract_size (header_line input) of
        None \<Rightarrow> Inl Indeterminate
      | Some (nrows, ncols, nnz0) \<Rightarrow>
          (case parse_lines extract_index extract_value removeSelfLoops ignoreValues nrows ncols
                  (data_lines input) (header_lineN input) (nnz0 :: 's word) [] [] [] of
             Inl e \<Rightarrow> Inl e
           | Inr (nnz, rows, cols, vals) \<Rightarrow>
               (let vals1 = (if ignoreValues then replicate (length rows) 0 else vals) in
                if length rows \<noteq> unat nnz then Inl InvalidNnz
                else
                  (let ld = \<lparr>mVals = vals1,
                             mRows = map (\<lambda>k. k - 1) rows,
                             mCols = map (\<lambda>k. k - 1) cols,
                             mNrows = nrows, mNcols = ncols\<rparr>
                   in Inr (if makeUndirected then DoubleEdges ld else ld)))))"

text \<open>
  The notions in which the properties of the loader are stated: the indices that a line
  carries; whether they lie within the declared dimensions; whether the row index, or
  with a row index in range the column index, lies outside; whether the line is a
  self-loop; whether the second loop passes the line without a throw and without
  reading an unwritten variable; and the lines that the loop removes and emits.
\<close>

definition row_index :: "extractor \<Rightarrow> string \<Rightarrow> nat option" where
  "row_index extract_index line = fst (read_indices extract_index line)"

definition col_index :: "extractor \<Rightarrow> string \<Rightarrow> nat option" where
  "col_index extract_index line = fst (snd (read_indices extract_index line))"

definition value_text :: "extractor \<Rightarrow> string \<Rightarrow> string option" where
  "value_text extract_index line = snd (snd (read_indices extract_index line))"

definition in_bounds :: "extractor \<Rightarrow> nat \<Rightarrow> nat \<Rightarrow> string \<Rightarrow> bool" where
  "in_bounds extract_index nrows ncols line =
     (case (row_index extract_index line, col_index extract_index line) of
        (Some i, Some j) \<Rightarrow> 1 \<le> i \<and> i \<le> nrows \<and> 1 \<le> j \<and> j \<le> ncols
      | _ \<Rightarrow> False)"



definition is_loop :: "extractor \<Rightarrow> string \<Rightarrow> bool" where
  "is_loop extract_index line =
     (row_index extract_index line \<noteq> None
      \<and> col_index extract_index line = row_index extract_index line)"

definition accepted ::
  "extractor \<Rightarrow> (string \<Rightarrow> 'v option) \<Rightarrow> bool \<Rightarrow> bool \<Rightarrow> nat \<Rightarrow> nat \<Rightarrow> string \<Rightarrow> bool" where
  "accepted extract_index extract_value removeSelfLoops ignoreValues nrows ncols line =
     (in_bounds extract_index nrows ncols line
      \<and> ((removeSelfLoops \<and> is_loop extract_index line) \<or> ignoreValues
         \<or> read_value extract_value (value_text extract_index line) \<noteq> None))"


definition removed_lines :: "bool \<Rightarrow> extractor \<Rightarrow> string list \<Rightarrow> string list" where
  "removed_lines removeSelfLoops extract_index lines =
     filter (\<lambda>l. removeSelfLoops \<and> is_loop extract_index l) lines"

definition emitted_lines :: "bool \<Rightarrow> extractor \<Rightarrow> string list \<Rightarrow> string list" where
  "emitted_lines removeSelfLoops extract_index lines =
     filter (\<lambda>l. \<not> (removeSelfLoops \<and> is_loop extract_index l)) lines"

text \<open>
  An extraction of decimal numbers into an unsigned type with the given number of
  values: blanks are skipped; at the end of the stream nothing is written; a sign may
  precede the digits, and a negative number wraps around; without a digit zero is
  written, and for a number that does not fit the largest value.
\<close>

definition is_blank :: "char \<Rightarrow> bool" where
  "is_blank c = (c = CHR '' '' \<or> c = CHR 0x09 \<or> c = CHR 0x0A \<or> c = CHR 0x0B \<or> c = CHR 0x0C
     \<or> c = CHR 0x0D)"

definition digit_of :: "char \<Rightarrow> nat option" where
  "digit_of = map_of (zip ''0123456789'' [0, 1, 2, 3, 4, 5, 6, 7, 8, 9])"

definition digits_value :: "string \<Rightarrow> nat" where
  "digits_value ds = foldl (\<lambda>a c. 10 * a + the (digit_of c)) 0 ds"

text \<open>The sign, the digits and the rest of a stream whose leading blanks have been skipped.\<close>

definition split_number :: "string \<Rightarrow> bool \<times> string \<times> string" where
  "split_number s =
     (let negative = (case s of c # _ \<Rightarrow> c = CHR ''-'' | [] \<Rightarrow> False);
          signed = (case s of c # _ \<Rightarrow> c = CHR ''-'' \<or> c = CHR ''+'' | [] \<Rightarrow> False);
          body = (if signed then tl s else s)
      in (negative, takeWhile (\<lambda>c. digit_of c \<noteq> None) body,
          dropWhile (\<lambda>c. digit_of c \<noteq> None) body))"

definition extract_decimal :: "nat \<Rightarrow> extractor" where
  "extract_decimal bound s =
     (let s1 = dropWhile is_blank s in
      if s1 = [] then Unwritten
      else
        (case split_number s1 of
           (negative, ds, rest) \<Rightarrow>
             if ds = [] then NotExtracted 0
             else if bound \<le> digits_value ds then NotExtracted (bound - 1)
             else Extracted (if negative then (bound - digits_value ds) mod bound
                             else digits_value ds) rest))"

text \<open>
  The same for a value of the signed type of 32 bits: a number beyond the range is
  written as the nearest bound.
\<close>

definition value_decimal :: "string \<Rightarrow> int option" where
  "value_decimal s =
     (let s1 = dropWhile is_blank s in
      if s1 = [] then None
      else
        (case split_number s1 of
           (negative, ds, rest) \<Rightarrow>
             if ds = [] then Some 0
             else if negative then Some (max (- int (digits_value ds)) (- 2147483648))
             else Some (min (int (digits_value ds)) 2147483647)))"



text \<open>A file with an empty line behind its only entry, and one whose header declares no count.\<close>

definition mtx_blank_line :: string where
  "mtx_blank_line = ''2 2 1'' @ [CHR 0x0A] @ ''1 2 5'' @ [CHR 0x0A] @ [CHR 0x0A]"

definition mtx_short_header :: string where
  "mtx_short_header = ''2 2'' @ [CHR 0x0A] @ ''1 2 5''"

section \<open>Masked vector-matrix product: \<^verbatim>\<open>src/opencl/cl_vxm.hpp\<close>\<close>

text \<open>
  The device formats that \<^verbatim>\<open>execute_scalar\<close> validates: a dense vector is one
  buffer \<^verbatim>\<open>Ax\<close>, a matrix in compressed sparse row format the three buffers
  \<^verbatim>\<open>Ap\<close>, \<^verbatim>\<open>Aj\<close> and \<^verbatim>\<open>Ax\<close>.
\<close>

record 'a CLDenseVec =
  cl_Ax :: "'a list"

record 'a CLCsr =
  csr_Ap :: "nat list"
  csr_Aj :: "nat list"
  csr_Ax :: "'a list"

text \<open>The number of work groups that \<^verbatim>\<open>execute_scalar\<close> dispatches.\<close>

definition n_groups_to_dispatch :: "nat \<Rightarrow> nat \<Rightarrow> nat" where
  "n_groups_to_dispatch v_rows m_block_size = max (min (v_rows div m_block_size) 512) 1"

text \<open>
  Modelled from the spec: the bodies of the kernels \<^verbatim>\<open>vxm_prepare\<close> and
  \<^verbatim>\<open>vxm_atomic_scalar\<close> (\<^verbatim>\<open>opencl/generated/auto_vxm.hpp\<close> is not among the sources;
  the host code passes the buffers and the number of rows of \<open>v\<close>). The first kernel fills
  the result with \<open>init\<close>. The second scans the non-zeros \<open>M[k,j]\<close> of the rows \<open>k\<close> at
  which \<open>v[k]\<close> exists, that is, differs from the fill value of \<open>v\<close>, and combines
  \<open>v[k] \<otimes> M[k,j]\<close> into \<open>r[j]\<close> with one atomic \<open>\<oplus>\<close> where the select operator accepts
  \<open>mask[j]\<close>; with early exit the mask is tested before \<open>M\<close> and \<open>v\<close> are touched. A work
  item is a pair \<open>(k, p)\<close> of a row and a position in \<^verbatim>\<open>Aj\<close> and \<^verbatim>\<open>Ax\<close>. The atomic
  updates of all work items take place one after the other in an order that the device
  chooses: the schedule, a parameter of the model.
\<close>

definition vxm_prepare :: "'a list \<Rightarrow> 'a \<Rightarrow> nat \<Rightarrow> 'a list" where
  "vxm_prepare g_r init n = replicate (min n (length g_r)) init @ drop n g_r"

definition row_items :: "nat list \<Rightarrow> nat \<Rightarrow> (nat \<times> nat) list" where
  "row_items g_Ap k = map (\<lambda>p. (k, p)) [g_Ap ! k..<g_Ap ! (k + 1)]"

definition work_items :: "'a \<Rightarrow> 'a list \<Rightarrow> nat list \<Rightarrow> nat \<Rightarrow> (nat \<times> nat) list" where
  "work_items v_fill g_vx g_Ap n =
     concat (map (\<lambda>k. if g_vx ! k \<noteq> v_fill then row_items g_Ap k else []) [0..<n])"

definition atomic_update ::
  "bool \<Rightarrow> ('a \<Rightarrow> 'a \<Rightarrow> 'a) \<Rightarrow> ('a \<Rightarrow> 'a \<Rightarrow> 'a) \<Rightarrow> ('a \<Rightarrow> bool) \<Rightarrow> 'a list \<Rightarrow> nat list \<Rightarrow> 'a list
    \<Rightarrow> 'a list \<Rightarrow> 'a list \<Rightarrow> nat \<times> nat \<Rightarrow> 'a list" where
  "atomic_update early_exit op_multiply op_add op_select g_vx g_Aj g_Ax g_mask g_r item =
     (case item of (k, p) \<Rightarrow>
        (let j = g_Aj ! p in
         if early_exit \<and> \<not> op_select (g_mask ! j) then g_r
         else
           (let prod = op_multiply (g_vx ! k) (g_Ax ! p) in
            if op_select (g_mask ! j) then g_r[j := op_add (g_r ! j) prod] else g_r)))"

definition vxm_atomic_scalar ::
  "((nat \<times> nat) list \<Rightarrow> (nat \<times> nat) list) \<Rightarrow> ('a \<Rightarrow> 'a \<Rightarrow> 'a) \<Rightarrow> ('a \<Rightarrow> 'a \<Rightarrow> 'a) \<Rightarrow> ('a \<Rightarrow> bool)
    \<Rightarrow> 'a \<Rightarrow> 'a list \<Rightarrow> nat list \<Rightarrow> nat list \<Rightarrow> 'a list \<Rightarrow> 'a list \<Rightarrow> 'a list \<Rightarrow> nat \<Rightarrow> bool
    \<Rightarrow> 'a list" where
  "vxm_atomic_scalar schedule op_multiply op_add op_select v_fill g_vx g_Ap g_Aj g_Ax g_mask g_r n
      early_exit =
     foldl (atomic_update early_exit op_multiply op_add op_select g_vx g_Aj g_Ax g_mask) g_r
       (schedule (work_items v_fill g_vx g_Ap n))"

text \<open>
  \<^verbatim>\<open>Algo_vxm_masked_cl::execute_scalar\<close>, after the four validations: \<open>p_cl_r\<close> is the
  buffer of \<open>r\<close> that the write-discard validation has allocated, with \<open>r_rows\<close> elements
  of arbitrary content. \<open>compiled\<close> is the outcome of \<^verbatim>\<open>ensure_kernel\<close>. The result is
  the status and the buffer of \<open>r\<close>.
\<close>

definition execute_scalar ::
  "bool \<Rightarrow> ((nat \<times> nat) list \<Rightarrow> (nat \<times> nat) list) \<Rightarrow> bool \<Rightarrow> ('a \<Rightarrow> 'a \<Rightarrow> 'a) \<Rightarrow> ('a \<Rightarrow> 'a \<Rightarrow> 'a)
    \<Rightarrow> ('a \<Rightarrow> bool) \<Rightarrow> 'a \<Rightarrow> 'a CLDenseVec \<Rightarrow> nat \<Rightarrow> 'a CLDenseVec \<Rightarrow> 'a CLCsr \<Rightarrow> 'a CLDenseVec
    \<Rightarrow> nat \<Rightarrow> 'a \<Rightarrow> Status \<times> 'a CLDenseVec" where
  "execute_scalar compiled schedule early_exit op_multiply op_add op_select init p_cl_r r_rows
      p_cl_mask p_cl_M p_cl_v v_rows v_fill =
     (if \<not> compiled then (Error, p_cl_r)
      else
        (let r1 = vxm_prepare (cl_Ax p_cl_r) init r_rows;
             r2 = vxm_atomic_scalar schedule op_multiply op_add op_select v_fill (cl_Ax p_cl_v)
                    (csr_Ap p_cl_M) (csr_Aj p_cl_M) (csr_Ax p_cl_M) (cl_Ax p_cl_mask) r1 v_rows
                    early_exit
         in (Ok, \<lparr>cl_Ax = r2\<rparr>)))"

text \<open>
  The contract: the products \<open>v[k] \<otimes> M[k,j]\<close> that contribute to column \<open>j\<close>, over a list
  of work items.
\<close>

definition column_products ::
  "('a \<Rightarrow> 'a \<Rightarrow> 'a) \<Rightarrow> 'a list \<Rightarrow> nat list \<Rightarrow> 'a list \<Rightarrow> nat \<Rightarrow> (nat \<times> nat) list \<Rightarrow> 'a list" where
  "column_products op_multiply g_vx g_Aj g_Ax j items =
     map (\<lambda>(k, p). op_multiply (g_vx ! k) (g_Ax ! p)) (filter (\<lambda>(k, p). g_Aj ! p = j) items)"

text \<open>
  One level of a breadth-first search on the path \<open>0 \<rightarrow> 1 \<rightarrow> 2 \<rightarrow> 3\<close> over the Boolean
  semiring: the adjacency matrix, the frontier \<open>{0}\<close> and the mask of the vertices not
  visited yet.
\<close>

definition bfs_M :: "bool CLCsr" where
  "bfs_M = \<lparr>csr_Ap = [0, 1, 2, 3, 3], csr_Aj = [1, 2, 3], csr_Ax = [True, True, True]\<rparr>"

definition bfs_v :: "bool CLDenseVec" where
  "bfs_v = \<lparr>cl_Ax = [True, False, False, False]\<rparr>"

definition bfs_mask :: "bool CLDenseVec" where
  "bfs_mask = \<lparr>cl_Ax = [False, True, True, True]\<rparr>"

section \<open>Properties of the typed matrix\<close>

lemma uint_of_bytes_of_uint: "uint_of_bytes (bytes_of_uint w) = w"
  unfolding bytes_of_uint_def uint_of_bytes.simps
proof (rule bit_word_eqI)
  fix n assume "n < LENGTH(32)"
  then show "bit (ucast (ucast w :: byte) OR push_bit 8 (ucast (ucast (drop_bit 8 w) :: byte)) OR
            push_bit 16 (ucast (ucast (drop_bit 16 w) :: byte)) OR
            push_bit 24 (ucast (ucast (drop_bit 24 w) :: byte)) :: 32 word) n = bit w n"
    by (cases "n < 8"; cases "n < 16"; cases "n < 24") (auto simp: bit_simps)
qed

lemma bytes_of_uint_of_bytes:
  "bytes_of_uint (uint_of_bytes [b0, b1, b2, b3]) = [b0, b1, b2, b3]"
  unfolding bytes_of_uint_def uint_of_bytes.simps
  apply simp
  apply (intro conjI; rule bit_word_eqI)
     apply (auto simp: bit_simps dest: bit_imp_le_length)
  done

lemma length_bytes_of_uint: "length (bytes_of_uint w) = 4"
  by (simp add: bytes_of_uint_def)

lemma length_store_array: "length (store_array ws) = 4 * length ws"
  by (induction ws) (simp_all add: store_array_def length_bytes_of_uint)

lemma store_array_Cons: "store_array (w # ws) = bytes_of_uint w @ store_array ws"
  by (simp add: store_array_def)

lemma length_load_array: "length (load_array n bs) = n"
  by (induction n arbitrary: bs) simp_all

lemma load_array_store_array: "load_array (length ws) (store_array ws) = ws"
  by (induction ws)
    (simp_all add: store_array_Cons length_bytes_of_uint uint_of_bytes_of_uint)

lemma load_array_append: "load_array (length ws) (store_array ws @ rest) = ws"
  by (induction ws)
    (simp_all add: store_array_Cons length_bytes_of_uint uint_of_bytes_of_uint)

lemma four_bytes:
  assumes "length (bs :: byte list) = 4"
  obtains b0 b1 b2 b3 where "bs = [b0, b1, b2, b3]"
proof -
  from assms obtain b0 r0 where "bs = b0 # r0" "length r0 = 3"
    by (cases bs) auto
  moreover then obtain b1 r1 where "r0 = b1 # r1" "length r1 = 2"
    by (cases r0) auto
  moreover then obtain b2 r2 where "r1 = b2 # r2" "length r2 = 1"
    by (cases r1) auto
  moreover then obtain b3 where "r2 = [b3]"
    by (cases r2) auto
  ultimately show thesis using that by blast
qed

lemma store_array_load_array:
  "length bs = 4 * n \<Longrightarrow> store_array (load_array n bs) = bs"
proof (induction n arbitrary: bs)
  case 0
  then show ?case by (simp add: store_array_def)
next
  case (Suc n)
  have "length (take 4 bs) = 4" using Suc.prems by simp
  then obtain b0 b1 b2 b3 where t: "take 4 bs = [b0, b1, b2, b3]"
    by (rule four_bytes)
  have "store_array (load_array n (drop 4 bs)) = drop 4 bs"
    using Suc.prems by (intro Suc.IH) simp
  then have "store_array (load_array (Suc n) bs) = take 4 bs @ drop 4 bs"
    by (simp add: store_array_Cons t bytes_of_uint_of_bytes del: uint_of_bytes.simps)
  then show ?case by simp
qed

lemma fill_value_manager_validate_rw:
  "fill_value (manager_validate_rw cv fmt s) = fill_value s"
  by (cases fmt) (simp_all add: manager_validate_rw_def convert_def)

lemma get_fill_value_validate_rw:
  "get_fill_value (validate_rw cv fmt m) = get_fill_value m"
  by (simp add: get_fill_value_def validate_rw_def fill_value_manager_validate_rw)

text \<open>
  Claim C4. \<^verbatim>\<open>TMatrix::set_reduce\<close> returns \<open>InvalidArgument\<close> on every path, hence never
  \<open>Ok\<close>; this includes the path on which the cast of the operator succeeds, and on that
  path the operator has been installed as the reduce function of both the list-of-lists
  and the dictionary-of-keys decoration.
\<close>

theorem set_reduce_returns_InvalidArgument:
  "fst (set_reduce resolve_duplicates m) = InvalidArgument
   \<and> fst (set_reduce resolve_duplicates m) \<noteq> Ok
   \<and> (\<forall>reduce. resolve_duplicates = Some reduce \<longrightarrow>
         lil_reduce (get_lil (snd (set_reduce resolve_duplicates m))) = reduce
       \<and> dok_reduce (get_dok (snd (set_reduce resolve_duplicates m))) = reduce)"
  by (cases resolve_duplicates)
    (simp_all add: set_reduce_def Let_def get_lil_def get_dok_def set_lil_reduce_def
      set_dok_reduce_def validate_ctor_def manager_validate_ctor_def)

text \<open>Witness for C4: the operator \<open>(+)\<close> on a fresh \<open>2 \<times> 2\<close> matrix.\<close>

theorem set_reduce_returns_InvalidArgument_witness:
  "fst (set_reduce (Some (+)) (TMatrix_new 2 2)) = InvalidArgument
   \<and> lil_reduce (get_lil (snd (set_reduce (Some (+)) (TMatrix_new 2 2)))) = (+)
   \<and> dok_reduce (get_dok (snd (set_reduce (Some (+)) (TMatrix_new 2 2)))) = (+)"
  using set_reduce_returns_InvalidArgument [of "Some (+)" "TMatrix_new 2 2"] by simp

text \<open>
  Claim C10. For every pair of coordinates, \<^verbatim>\<open>get_int\<close>, \<^verbatim>\<open>get_uint\<close> and
  \<^verbatim>\<open>get_float\<close> return \<open>Ok\<close>, and hand out the fill value of the matrix whenever the
  dictionary of keys holds no entry at the key. Nothing compares the coordinates with
  the dimensions of the matrix, so the statement has no bound on \<open>row_id\<close> and
  \<open>col_id\<close>.
\<close>

theorem get_returns_Ok_and_fill:
  "fst (get_int to_int32 cv m row_id col_id) = Ok
   \<and> fst (get_uint to_uint32 cv m row_id col_id) = Ok
   \<and> fst (get_float to_float cv m row_id col_id) = Ok
   \<and> (dok_Ax (get_dok (validate_rw cv CpuDok m)) (row_id, col_id) = None \<longrightarrow>
         fst (snd (get_int to_int32 cv m row_id col_id)) = to_int32 (get_fill_value m)
       \<and> fst (snd (get_uint to_uint32 cv m row_id col_id)) = to_uint32 (get_fill_value m)
       \<and> fst (snd (get_float to_float cv m row_id col_id)) = to_float (get_fill_value m))"
  by (simp add: get_int_def get_uint_def get_float_def Let_def get_fill_value_validate_rw)

text \<open>Witness for C10: the key \<open>(5, 7)\<close> of a \<open>2 \<times> 2\<close> matrix, outside its dimensions.\<close>

theorem get_returns_Ok_and_fill_witness:
  "dok_Ax (get_dok (validate_rw convert_none CpuDok (TMatrix_new 2 2))) (5, 7) = None
   \<and> fst (get_int id convert_none (TMatrix_new 2 2) 5 7) = Ok
   \<and> fst (snd (get_int id convert_none (TMatrix_new 2 2) 5 7)) = get_fill_value (TMatrix_new 2 2)
   \<and> fst (snd (get_uint id convert_none (TMatrix_new 2 2) 5 7)) = get_fill_value (TMatrix_new 2 2)
   \<and> fst (snd (get_float id convert_none (TMatrix_new 2 2) 5 7)) = get_fill_value (TMatrix_new 2 2)"
proof -
  have h: "dok_Ax (get_dok (validate_rw convert_none CpuDok (TMatrix_new 2 2))) (5, 7) = None"
    by (simp add: get_dok_def validate_rw_def manager_validate_rw_def convert_def
        convert_none_def TMatrix_new_def)
  show ?thesis
    using h get_returns_Ok_and_fill [of id convert_none "TMatrix_new 2 2" 5 7 id id]
    by simp
qed

lemma build_equal_length:
  assumes "length rows = length cols" and "length cols = length vals"
  shows "build (store_array rows) (store_array cols) (store_array vals) m =
     (Ok, set_coo \<lparr>coo_Ai = rows, coo_Aj = cols, coo_Ax = vals,
                   coo_values = of_nat (length rows)\<rparr> (validate_rwd CpuCoo m))"
proof -
  have r: "load_array (length vals) (store_array rows) = rows"
    "load_array (length vals) (store_array cols) = cols"
    "load_array (length vals) (store_array vals) = vals"
    using assms load_array_store_array [of rows] load_array_store_array [of cols]
      load_array_store_array [of vals] by simp_all
  show ?thesis
    using assms
    by (simp add: build_def key_size_def value_size_def length_store_array MemView_read_def
        Let_def r mult.commute)
qed

lemma valid_set_coo_validate_rwd:
  "valid (m_storage (set_coo c (validate_rwd CpuCoo m))) = {CpuCoo}"
  by (simp add: set_coo_def validate_rwd_def manager_validate_rwd_def)

lemma get_coo_set_coo: "get_coo (set_coo c m) = c"
  by (simp add: get_coo_def set_coo_def)

lemma read_valid_coo:
  assumes "valid (m_storage m) = {CpuCoo}"
  shows "read cv m =
     (Ok, (MemView_make (coo_Ai (get_coo m)) (key_size * length (coo_Ai (get_coo m))),
           MemView_make (coo_Aj (get_coo m)) (key_size * length (coo_Ai (get_coo m))),
           MemView_make (coo_Ax (get_coo m)) (value_size * length (coo_Ai (get_coo m)))), m)"
proof -
  have "validate_rw cv CpuCoo m = m"
    using assms by (simp add: validate_rw_def manager_validate_rw_def)
  then show ?thesis by (simp add: read_def Let_def)
qed

lemma MemView_make_whole: "MemView_make ws (4 * length ws) = store_array ws"
  by (simp add: MemView_make_def length_store_array)

lemma read_build_equal_length:
  assumes "length rows = length cols" and "length cols = length vals"
  shows "fst (snd (read cv (snd (build (store_array rows) (store_array cols) (store_array vals) m))))
     = (store_array rows, store_array cols, store_array vals)"
proof -
  let ?c = "\<lparr>coo_Ai = rows, coo_Aj = cols, coo_Ax = vals, coo_values = of_nat (length rows)\<rparr>"
  let ?m = "set_coo ?c (validate_rwd CpuCoo m)"
  have mk: "MemView_make rows (4 * length rows) = store_array rows"
    "MemView_make cols (4 * length rows) = store_array cols"
    "MemView_make vals (4 * length rows) = store_array vals"
    using assms MemView_make_whole [of rows] MemView_make_whole [of cols]
      MemView_make_whole [of vals] by simp_all
  have "read cv ?m = (Ok, (MemView_make rows (4 * length rows),
           MemView_make cols (4 * length rows),
           MemView_make vals (4 * length rows)), ?m)"
    using read_valid_coo [OF valid_set_coo_validate_rwd, where cv = cv and c1 = ?c and m1 = m]
    by (simp add: get_coo_set_coo key_size_def value_size_def)
  then have "fst (snd (read cv ?m)) = (store_array rows, store_array cols, store_array vals)"
    by (simp add: mk)
  then show ?thesis
    by (simp add: build_equal_length [OF assms])
qed

lemma build_fst_Ok:
  assumes "length rows = length cols" and "length cols = length vals"
  shows "fst (build (store_array rows) (store_array cols) (store_array vals) m) = Ok"
  by (simp add: build_equal_length [OF assms])

lemma build_snd_valid:
  assumes "length rows = length cols" and "length cols = length vals"
  shows "valid (m_storage (snd (build (store_array rows) (store_array cols) (store_array vals) m)))
     = {CpuCoo}"
  by (simp add: build_equal_length [OF assms] valid_set_coo_validate_rwd)

lemma build_snd_coo:
  assumes "length rows = length cols" and "length cols = length vals"
  shows "get_coo (snd (build (store_array rows) (store_array cols) (store_array vals) m))
     = \<lparr>coo_Ai = rows, coo_Aj = cols, coo_Ax = vals, coo_values = of_nat (length rows)\<rparr>"
  by (simp add: build_equal_length [OF assms] get_coo_set_coo)

text \<open>
  Counterexample to claim C5 as stated: after the reduce operator \<open>(+)\<close> has been
  registered, building from the triples \<open>(0,0,1), (0,0,2), (1,1,3)\<close> and reading back
  does not yield \<open>(0,0,3), (1,1,3)\<close>, and the list-of-lists format is not valid after
  the build.
\<close>

theorem build_folds_duplicates_counterexample:
  "fst (snd (read convert_none (snd (build (store_array [0, 0, 1]) (store_array [0, 0, 1])
        (store_array [1, 2, 3]) (snd (set_reduce (Some (+)) (TMatrix_new 2 2)))))))
     \<noteq> (store_array [0, 1], store_array [0, 1], store_array [3, 3])
   \<and> \<not> is_valid CpuLil (snd (build (store_array [0, 0, 1]) (store_array [0, 0, 1])
        (store_array [1, 2, 3]) (snd (set_reduce (Some (+)) (TMatrix_new 2 2)))))"
proof -
  have "length (store_array [0, 0, 1 :: 32 word]) \<noteq> length (store_array [0, 1 :: 32 word])"
    by (simp add: length_store_array)
  then have ne: "store_array [0, 0, 1 :: 32 word] \<noteq> store_array [0, 1]"
    by metis
  have rb: "fst (snd (read convert_none (snd (build (store_array [0, 0, 1]) (store_array [0, 0, 1])
        (store_array [1, 2, 3]) (snd (set_reduce (Some (+)) (TMatrix_new 2 2)))))))
     = (store_array [0, 0, 1], store_array [0, 0, 1], store_array [1, 2, 3])"
    by (rule read_build_equal_length) simp_all
  have vl: "valid (m_storage (snd (build (store_array [0, 0, 1]) (store_array [0, 0, 1])
        (store_array [1, 2, 3]) (snd (set_reduce (Some (+)) (TMatrix_new 2 2)))))) = {CpuCoo}"
    by (rule build_snd_valid) simp_all
  show ?thesis
    unfolding rb is_valid_def vl using ne by simp
qed

text \<open>
  Claim C5, amended. For every build from three arrays of equal length,
  \<^verbatim>\<open>TMatrix::build\<close> returns \<open>Ok\<close>, leaves the coordinate format as the only valid
  format (the list-of-lists format is not valid) and stores the triples as they were
  given: in input order, every duplicate key kept, the reduce operator not applied. In
  particular, building from \<open>(0,0,1), (0,0,2), (1,1,3)\<close> with reduce \<open>(+)\<close> registered
  and reading back yields \<open>(0,0,1), (0,0,2), (1,1,3)\<close>.
\<close>

theorem build_stores_triples_verbatim:
  assumes "length rows = length cols" and "length cols = length vals"
  shows "fst (build (store_array rows) (store_array cols) (store_array vals) m) = Ok
    \<and> valid (m_storage (snd (build (store_array rows) (store_array cols) (store_array vals) m)))
        = {CpuCoo}
    \<and> \<not> is_valid CpuLil (snd (build (store_array rows) (store_array cols) (store_array vals) m))
    \<and> triples (get_coo (snd (build (store_array rows) (store_array cols) (store_array vals) m)))
        = zip rows (zip cols vals)
    \<and> fst (snd (read convert_none (snd (build (store_array [0, 0, 1]) (store_array [0, 0, 1])
          (store_array [1, 2, 3]) (snd (set_reduce (Some (+)) (TMatrix_new 2 2)))))))
        = (store_array [0, 0, 1], store_array [0, 0, 1], store_array [1, 2, 3])"
proof (intro conjI)
  show "fst (build (store_array rows) (store_array cols) (store_array vals) m) = Ok"
    by (rule build_fst_Ok [OF assms])
  show "valid (m_storage (snd (build (store_array rows) (store_array cols) (store_array vals) m)))
        = {CpuCoo}"
    by (rule build_snd_valid [OF assms])
  then show "\<not> is_valid CpuLil (snd (build (store_array rows) (store_array cols)
      (store_array vals) m))"
    by (simp add: is_valid_def)
  show "triples (get_coo (snd (build (store_array rows) (store_array cols) (store_array vals) m)))
        = zip rows (zip cols vals)"
    by (simp add: build_snd_coo [OF assms] triples_def)
  show "fst (snd (read convert_none (snd (build (store_array [0, 0, 1]) (store_array [0, 0, 1])
          (store_array [1, 2, 3]) (snd (set_reduce (Some (+)) (TMatrix_new 2 2)))))))
        = (store_array [0, 0, 1], store_array [0, 0, 1], store_array [1, 2, 3])"
    by (rule read_build_equal_length) simp_all
qed

text \<open>Witness for the amended C5: the three triples of the example.\<close>

theorem build_stores_triples_verbatim_witness:
  "length [0, 0, 1 :: 32 word] = length [0, 0, 1 :: 32 word]
   \<and> length [0, 0, 1 :: 32 word] = length [1, 2, 3 :: 32 word]
   \<and> fst (build (store_array [0, 0, 1]) (store_array [0, 0, 1]) (store_array [1, 2, 3])
        (TMatrix_new 2 2)) = Ok
   \<and> triples (get_coo (snd (build (store_array [0, 0, 1]) (store_array [0, 0, 1])
        (store_array [1, 2, 3]) (TMatrix_new 2 2)))) = [(0, 0, 1), (0, 0, 2), (1, 1, 3)]"
  using build_stores_triples_verbatim [of "[0, 0, 1]" "[0, 0, 1]" "[1, 2, 3]" "TMatrix_new 2 2"]
  by simp

text \<open>
  Claim C6. For every matrix and every three arrays of equal length, building the matrix
  from them and reading it back succeeds and yields the same three arrays, byte for
  byte. The triples read back are therefore a permutation of the triples given (the
  identity), whatever a descriptor promised: \<^verbatim>\<open>build\<close> takes no descriptor.
\<close>

theorem build_read_roundtrip:
  assumes "length rows = length cols" and "length cols = length vals"
  shows "fst (build (store_array rows) (store_array cols) (store_array vals) m) = Ok
    \<and> fst (read cv (snd (build (store_array rows) (store_array cols) (store_array vals) m))) = Ok
    \<and> fst (snd (read cv (snd (build (store_array rows) (store_array cols) (store_array vals) m))))
        = (store_array rows, store_array cols, store_array vals)
    \<and> mset (triples (get_coo (snd (snd (read cv
          (snd (build (store_array rows) (store_array cols) (store_array vals) m)))))))
        = mset (zip rows (zip cols vals))"
proof (intro conjI)
  let ?b = "snd (build (store_array rows) (store_array cols) (store_array vals) m)"
  have v: "valid (m_storage ?b) = {CpuCoo}"
    by (rule build_snd_valid [OF assms])
  show "fst (build (store_array rows) (store_array cols) (store_array vals) m) = Ok"
    by (rule build_fst_Ok [OF assms])
  show "fst (read cv ?b) = Ok"
    by (simp add: read_valid_coo [OF v])
  show "fst (snd (read cv ?b)) = (store_array rows, store_array cols, store_array vals)"
    by (rule read_build_equal_length [OF assms])
  have "snd (snd (read cv ?b)) = ?b"
    by (simp add: read_valid_coo [OF v])
  then show "mset (triples (get_coo (snd (snd (read cv ?b))))) = mset (zip rows (zip cols vals))"
    by (simp add: build_snd_coo [OF assms] triples_def)
qed

text \<open>Witness for C6: two triples, given out of row order.\<close>

theorem build_read_roundtrip_witness:
  "length [2, 0 :: 32 word] = length [1, 1 :: 32 word]
   \<and> length [1, 1 :: 32 word] = length [7, 9 :: 32 word]
   \<and> fst (snd (read convert_none (snd (build (store_array [2, 0]) (store_array [1, 1])
         (store_array [7, 9]) (TMatrix_new 3 3)))))
       = (store_array [2, 0], store_array [1, 1], store_array [7, 9])"
  using build_read_roundtrip [of "[2, 0]" "[1, 1]" "[7, 9]" "TMatrix_new 3 3" convert_none]
  by simp

section \<open>Properties of the masked vector assignment\<close>

lemma dn2dn_loop_result:
  assumes "\<forall>i \<in> set is. i < length mask_Ax \<and> i < length r_Ax" and "distinct is"
  shows "\<exists>r'. dn2dn_loop f s v mask_Ax is r_Ax = Inr r' \<and> length r' = length r_Ax
     \<and> (\<forall>i < length r_Ax. r' ! i =
           (if i \<in> set is \<and> s (mask_Ax ! i) then f (r_Ax ! i) v else r_Ax ! i))"
  using assms
proof (induction "is" arbitrary: r_Ax)
  case Nil
  then show ?case by simp
next
  case (Cons a rest)
  show ?case
  proof (cases "s (mask_Ax ! a)")
    case False
    with Cons.prems Cons.IH [of r_Ax] show ?thesis by auto
  next
    case True
    let ?r = "r_Ax[a := f (r_Ax ! a) v]"
    have "\<forall>i\<in>set rest. i < length mask_Ax \<and> i < length ?r" "distinct rest"
      using Cons.prems by auto
    from Cons.IH [OF this] obtain r' where
      r': "dn2dn_loop f s v mask_Ax rest ?r = Inr r'" "length r' = length ?r"
      "\<forall>i < length ?r. r' ! i = (if i \<in> set rest \<and> s (mask_Ax ! i) then f (?r ! i) v else ?r ! i)"
      by blast
    have a: "a < length mask_Ax" "a < length r_Ax" "a \<notin> set rest"
      using Cons.prems by auto
    have "dn2dn_loop f s v mask_Ax (a # rest) r_Ax = Inr r'"
      using r'(1) True a by simp
    moreover have "length r' = length r_Ax" using r'(2) by simp
    moreover have "\<forall>i < length r_Ax. r' ! i =
        (if i \<in> set (a # rest) \<and> s (mask_Ax ! i) then f (r_Ax ! i) v else r_Ax ! i)"
    proof (intro allI impI)
      fix i assume i: "i < length r_Ax"
      then have "r' ! i = (if i \<in> set rest \<and> s (mask_Ax ! i) then f (?r ! i) v else ?r ! i)"
        using r'(3) by simp
      then show "r' ! i =
        (if i \<in> set (a # rest) \<and> s (mask_Ax ! i) then f (r_Ax ! i) v else r_Ax ! i)"
        using a True i by (cases "i = a") auto
    qed
    ultimately show ?thesis by blast
  qed
qed

lemma sp2dn_loop_result:
  assumes "\<forall>idx \<in> set idxs. idx < length Ai \<and> idx < length Ax \<and> Ai ! idx < length r_Ax"
  shows "\<exists>r'. sp2dn_loop f s v Ai Ax idxs r_Ax = Inr r' \<and> length r' = length r_Ax
     \<and> (\<forall>i < length r_Ax. (\<forall>idx \<in> set idxs. Ai ! idx = i \<longrightarrow> \<not> s (Ax ! idx)) \<longrightarrow> r' ! i = r_Ax ! i)"
  using assms
proof (induction idxs arbitrary: r_Ax)
  case Nil
  then show ?case by simp
next
  case (Cons a rest)
  show ?case
  proof (cases "s (Ax ! a)")
    case False
    with Cons.prems Cons.IH [of r_Ax] show ?thesis by auto
  next
    case True
    let ?r = "r_Ax[Ai ! a := f (r_Ax ! (Ai ! a)) v]"
    have "\<forall>idx\<in>set rest. idx < length Ai \<and> idx < length Ax \<and> Ai ! idx < length ?r"
      using Cons.prems by auto
    from Cons.IH [OF this] obtain r' where
      r': "sp2dn_loop f s v Ai Ax rest ?r = Inr r'" "length r' = length ?r"
      "\<forall>i < length ?r. (\<forall>idx \<in> set rest. Ai ! idx = i \<longrightarrow> \<not> s (Ax ! idx)) \<longrightarrow> r' ! i = ?r ! i"
      by blast
    have a: "a < length Ai" "a < length Ax" "Ai ! a < length r_Ax"
      using Cons.prems by auto
    have "sp2dn_loop f s v Ai Ax (a # rest) r_Ax = Inr r'"
      using r'(1) True a by (simp add: Let_def)
    moreover have "length r' = length r_Ax" using r'(2) by simp
    moreover have "\<forall>i < length r_Ax.
        (\<forall>idx \<in> set (a # rest). Ai ! idx = i \<longrightarrow> \<not> s (Ax ! idx)) \<longrightarrow> r' ! i = r_Ax ! i"
    proof (intro allI impI)
      fix i assume i: "i < length r_Ax"
        and rej: "\<forall>idx \<in> set (a # rest). Ai ! idx = i \<longrightarrow> \<not> s (Ax ! idx)"
      then have "Ai ! a \<noteq> i" using True by auto
      moreover have "r' ! i = ?r ! i" using r'(3) i rej by simp
      ultimately show "r' ! i = r_Ax ! i" by simp
    qed
    ultimately show ?thesis by blast
  qed
qed


lemma execute_dn2dn_result:
  assumes "v_n_rows r \<le> length (dn_Ax (v_dense (vec_validate_rw cv VecCpuDense mask_v)))"
  shows "\<exists>r'. execute_dn2dn cv r mask_v value op_assign op_select
        = Inr (Ok, r', vec_validate_rw cv VecCpuDense mask_v)
     \<and> v_valid r' = {VecCpuDense}
     \<and> length (dn_Ax (v_dense r')) = v_n_rows r
     \<and> (\<forall>i < v_n_rows r. dn_Ax (v_dense r') ! i =
          (if op_select (dn_Ax (v_dense (vec_validate_rw cv VecCpuDense mask_v)) ! i)
           then op_assign (v_fill_value r) value else v_fill_value r))"
proof -
  let ?m = "dn_Ax (v_dense (vec_validate_rw cv VecCpuDense mask_v))"
  let ?r0 = "replicate (v_n_rows r) (v_fill_value r)"
  have "\<forall>i \<in> set [0..<v_n_rows r]. i < length ?m \<and> i < length ?r0"
    using assms by simp
  from dn2dn_loop_result [OF this, of op_assign op_select "value"]
  obtain r' where r': "dn2dn_loop op_assign op_select value ?m [0..<v_n_rows r] ?r0 = Inr r'"
    "length r' = length ?r0"
    "\<forall>i < length ?r0. r' ! i =
       (if i \<in> set [0..<v_n_rows r] \<and> op_select (?m ! i) then op_assign (?r0 ! i) value else ?r0 ! i)"
    by auto
  have "execute_dn2dn cv r mask_v value op_assign op_select
      = Inr (Ok, (vec_validate_rwd VecCpuDense r) \<lparr>v_dense := \<lparr>dn_Ax = r'\<rparr>\<rparr>,
             vec_validate_rw cv VecCpuDense mask_v)"
    using r'(1) by (simp add: execute_dn2dn_def Let_def vec_validate_rwd_def)
  moreover have "v_valid ((vec_validate_rwd VecCpuDense r) \<lparr>v_dense := \<lparr>dn_Ax = r'\<rparr>\<rparr>)
      = {VecCpuDense}"
    by (simp add: vec_validate_rwd_def)
  moreover have "\<forall>i < v_n_rows r. r' ! i =
       (if op_select (?m ! i) then op_assign (v_fill_value r) value else v_fill_value r)"
    using r'(3) by simp
  ultimately show ?thesis using r'(2) by simp
qed

lemma execute_sp2dn_result:
  assumes "\<forall>idx < sp_values (v_coo (vec_validate_rw cv VecCpuCoo mask_v)).
      idx < length (sp_Ai (v_coo (vec_validate_rw cv VecCpuCoo mask_v)))
    \<and> idx < length (sp_Ax (v_coo (vec_validate_rw cv VecCpuCoo mask_v)))
    \<and> sp_Ai (v_coo (vec_validate_rw cv VecCpuCoo mask_v)) ! idx < v_n_rows r"
  shows "\<exists>r'. execute_sp2dn cv r mask_v value op_assign op_select
        = Inr (Ok, r', vec_validate_rw cv VecCpuCoo mask_v)
     \<and> v_valid r' = {VecCpuDense}
     \<and> length (dn_Ax (v_dense r')) = v_n_rows r
     \<and> (\<forall>i < v_n_rows r.
          (\<forall>idx < sp_values (v_coo (vec_validate_rw cv VecCpuCoo mask_v)).
              sp_Ai (v_coo (vec_validate_rw cv VecCpuCoo mask_v)) ! idx = i
              \<longrightarrow> \<not> op_select (sp_Ax (v_coo (vec_validate_rw cv VecCpuCoo mask_v)) ! idx))
          \<longrightarrow> dn_Ax (v_dense r') ! i = v_fill_value r)"
proof -
  let ?c = "v_coo (vec_validate_rw cv VecCpuCoo mask_v)"
  let ?r0 = "replicate (v_n_rows r) (v_fill_value r)"
  have "\<forall>idx \<in> set [0..<sp_values ?c].
      idx < length (sp_Ai ?c) \<and> idx < length (sp_Ax ?c) \<and> sp_Ai ?c ! idx < length ?r0"
    using assms by simp
  from sp2dn_loop_result [OF this, of op_assign op_select "value"]
  obtain r' where r': "sp2dn_loop op_assign op_select value (sp_Ai ?c) (sp_Ax ?c)
      [0..<sp_values ?c] ?r0 = Inr r'"
    "length r' = length ?r0"
    "\<forall>i < length ?r0. (\<forall>idx \<in> set [0..<sp_values ?c]. sp_Ai ?c ! idx = i
         \<longrightarrow> \<not> op_select (sp_Ax ?c ! idx)) \<longrightarrow> r' ! i = ?r0 ! i"
    by auto
  have "execute_sp2dn cv r mask_v value op_assign op_select
      = Inr (Ok, (vec_validate_rwd VecCpuDense r) \<lparr>v_dense := \<lparr>dn_Ax = r'\<rparr>\<rparr>,
             vec_validate_rw cv VecCpuCoo mask_v)"
    using r'(1) by (simp add: execute_sp2dn_def Let_def vec_validate_rwd_def)
  moreover have "v_valid ((vec_validate_rwd VecCpuDense r) \<lparr>v_dense := \<lparr>dn_Ax = r'\<rparr>\<rparr>)
      = {VecCpuDense}"
    by (simp add: vec_validate_rwd_def)
  moreover have "\<forall>i < v_n_rows r.
          (\<forall>idx < sp_values ?c. sp_Ai ?c ! idx = i \<longrightarrow> \<not> op_select (sp_Ax ?c ! idx))
          \<longrightarrow> r' ! i = v_fill_value r"
    using r'(3) by simp
  ultimately show ?thesis using r'(2) by simp
qed

lemma dn_Ax_validate_rwd:
  "dn_Ax (v_dense (vec_validate_rwd VecCpuDense r)) = replicate (v_n_rows r) (v_fill_value r)"
  by (simp add: vec_validate_rwd_def)




text \<open>
  Claim C9. Both variants of the masked assignment validate the dense format of the
  target with write-discard semantics before the loop runs: the execution returns \<open>Ok\<close>,
  the dense format is the only valid format of the target afterwards, and every index
  \<open>i\<close> of the target at which the select operator rejects the mask holds the fill value
  of the target, whatever it held before the call. For the sparse mask the rejected
  indices are those at which every entry of the mask is rejected; an index without an
  entry is among them.
\<close>

theorem masked_assign_discards_target:
  "(v_n_rows r \<le> length (dn_Ax (v_dense (vec_validate_rw cv VecCpuDense mask_v))) \<longrightarrow>
     (\<exists>r'. execute_dn2dn cv r mask_v value op_assign op_select
          = Inr (Ok, r', vec_validate_rw cv VecCpuDense mask_v)
        \<and> v_valid r' = {VecCpuDense}
        \<and> (\<forall>i < v_n_rows r.
              \<not> op_select (dn_Ax (v_dense (vec_validate_rw cv VecCpuDense mask_v)) ! i) \<longrightarrow>
              dn_Ax (v_dense r') ! i = v_fill_value r)))
   \<and> ((\<forall>idx < sp_values (v_coo (vec_validate_rw cv VecCpuCoo mask_v)).
          idx < length (sp_Ai (v_coo (vec_validate_rw cv VecCpuCoo mask_v)))
        \<and> idx < length (sp_Ax (v_coo (vec_validate_rw cv VecCpuCoo mask_v)))
        \<and> sp_Ai (v_coo (vec_validate_rw cv VecCpuCoo mask_v)) ! idx < v_n_rows r) \<longrightarrow>
     (\<exists>r'. execute_sp2dn cv r mask_v value op_assign op_select
          = Inr (Ok, r', vec_validate_rw cv VecCpuCoo mask_v)
        \<and> v_valid r' = {VecCpuDense}
        \<and> (\<forall>i < v_n_rows r.
              (\<forall>idx < sp_values (v_coo (vec_validate_rw cv VecCpuCoo mask_v)).
                  sp_Ai (v_coo (vec_validate_rw cv VecCpuCoo mask_v)) ! idx = i
                  \<longrightarrow> \<not> op_select (sp_Ax (v_coo (vec_validate_rw cv VecCpuCoo mask_v)) ! idx))
              \<longrightarrow> dn_Ax (v_dense r') ! i = v_fill_value r)))"
proof (intro conjI impI)
  assume a: "v_n_rows r \<le> length (dn_Ax (v_dense (vec_validate_rw cv VecCpuDense mask_v)))"
  from execute_dn2dn_result [OF a, of "value" op_assign op_select]
  show "\<exists>r'. execute_dn2dn cv r mask_v value op_assign op_select
          = Inr (Ok, r', vec_validate_rw cv VecCpuDense mask_v)
        \<and> v_valid r' = {VecCpuDense}
        \<and> (\<forall>i < v_n_rows r.
              \<not> op_select (dn_Ax (v_dense (vec_validate_rw cv VecCpuDense mask_v)) ! i) \<longrightarrow>
              dn_Ax (v_dense r') ! i = v_fill_value r)"
    by auto
next
  assume a: "\<forall>idx < sp_values (v_coo (vec_validate_rw cv VecCpuCoo mask_v)).
          idx < length (sp_Ai (v_coo (vec_validate_rw cv VecCpuCoo mask_v)))
        \<and> idx < length (sp_Ax (v_coo (vec_validate_rw cv VecCpuCoo mask_v)))
        \<and> sp_Ai (v_coo (vec_validate_rw cv VecCpuCoo mask_v)) ! idx < v_n_rows r"
  from execute_sp2dn_result [OF a, of "value" op_assign op_select]
  show "\<exists>r'. execute_sp2dn cv r mask_v value op_assign op_select
          = Inr (Ok, r', vec_validate_rw cv VecCpuCoo mask_v)
        \<and> v_valid r' = {VecCpuDense}
        \<and> (\<forall>i < v_n_rows r.
              (\<forall>idx < sp_values (v_coo (vec_validate_rw cv VecCpuCoo mask_v)).
                  sp_Ai (v_coo (vec_validate_rw cv VecCpuCoo mask_v)) ! idx = i
                  \<longrightarrow> \<not> op_select (sp_Ax (v_coo (vec_validate_rw cv VecCpuCoo mask_v)) ! idx))
              \<longrightarrow> dn_Ax (v_dense r') ! i = v_fill_value r)"
    by blast
qed

text \<open>
  Witness for C9: the target holds \<open>[5, 5]\<close> before the call and has the fill value \<open>0\<close>;
  index \<open>1\<close> is rejected and holds \<open>0\<close> afterwards, in both variants.
\<close>

theorem masked_assign_discards_target_witness:
  "assigned_Ax (execute_dn2dn vec_convert_none (dense_vector 0 [5, 5 :: int]) (dense_vector 0 [1, 0])
       7 (+) op_select_nonzero) = Inr (Ok, [7, 0])
   \<and> assigned_Ax (execute_sp2dn vec_convert_none (dense_vector 0 [5, 5 :: int])
       (coo_vector 2 0 [0] [1]) 7 (+) op_select_nonzero) = Inr (Ok, [7, 0])
   \<and> dn_Ax (v_dense (dense_vector 0 [5, 5 :: int])) ! 1 = 5
   \<and> v_fill_value (dense_vector 0 [5, 5 :: int]) = 0"
proof -
  have h1: "v_n_rows (dense_vector 0 [5, 5 :: int])
     \<le> length (dn_Ax (v_dense (vec_validate_rw vec_convert_none VecCpuDense (dense_vector 0 [1, 0 :: int]))))"
    by (simp add: dense_vector_def vec_validate_rw_def)
  have h2: "\<forall>idx < sp_values (v_coo (vec_validate_rw vec_convert_none VecCpuCoo (coo_vector 2 0 [0] [1 :: int]))).
          idx < length (sp_Ai (v_coo (vec_validate_rw vec_convert_none VecCpuCoo (coo_vector 2 0 [0] [1 :: int]))))
        \<and> idx < length (sp_Ax (v_coo (vec_validate_rw vec_convert_none VecCpuCoo (coo_vector 2 0 [0] [1 :: int]))))
        \<and> sp_Ai (v_coo (vec_validate_rw vec_convert_none VecCpuCoo (coo_vector 2 0 [0] [1 :: int]))) ! idx
            < v_n_rows (dense_vector 0 [5, 5 :: int])"
    by (simp add: dense_vector_def coo_vector_def vec_validate_rw_def)
  note t = masked_assign_discards_target [of "dense_vector 0 [5, 5 :: int]" vec_convert_none _ 7 "(+)"
      op_select_nonzero]
  have e1: "assigned_Ax (execute_dn2dn vec_convert_none (dense_vector 0 [5, 5 :: int]) (dense_vector 0 [1, 0])
       7 (+) op_select_nonzero) = Inr (Ok, [7, 0])"
    by (simp add: assigned_Ax_def execute_dn2dn_def dense_vector_def vec_validate_rwd_def
        vec_validate_rw_def Let_def upt_rec numeral_eq_Suc op_select_nonzero_def)
  have e2: "assigned_Ax (execute_sp2dn vec_convert_none (dense_vector 0 [5, 5 :: int])
       (coo_vector 2 0 [0] [1]) 7 (+) op_select_nonzero) = Inr (Ok, [7, 0])"
    by (simp add: assigned_Ax_def execute_sp2dn_def dense_vector_def coo_vector_def
        vec_validate_rwd_def vec_validate_rw_def Let_def upt_rec numeral_eq_Suc
        op_select_nonzero_def)
  from t [of "dense_vector 0 [1, 0]"] h1 t [of "coo_vector 2 0 [0] [1]"] h2 e1 e2
  show ?thesis
    by (simp add: dense_vector_def)
qed

section \<open>Properties of the element-wise vector addition\<close>

text \<open>
  Claim C2 at its own example: \<open>a\<close> with indices \<open>[0,2]\<close> and values \<open>[1,3]\<close>, \<open>b\<close> with
  indices \<open>[1,2]\<close> and values \<open>[2,5]\<close>, no mask, and no block in \<open>w\<close> before the task. Both
  blocks are present, so the task reaches the comment that stands for the merge and
  returns: \<open>w\<close> still has no block, and in particular not the block with indices
  \<open>[0,1,2]\<close> and values \<open>[1,2,8]\<close>, whatever the two device primitives compute.
\<close>

theorem Process_task_both_present_unmerged:
  "Process_task MaskByKey Gather uninit None (Some ewise_a) (Some ewise_b) None = Inr None
   \<and> Process_task MaskByKey Gather uninit None (Some ewise_a) (Some ewise_b) None
       \<noteq> Inr (Some (VectorCOO_Make 3 3 [0, 1, 2] [1, 2, 8]))"
  by (simp add: Process_task_def fill_permA_def fill_permB_def applyMask_def Let_def)

text \<open>The same for every pair of blocks that are present, masked or not.\<close>

lemma Process_task_both_present:
  "Process_task MaskByKey Gather uninit maskBlock (Some A) (Some B) w_block = Inr w_block"
  by (simp add: Process_task_def fill_permA_def fill_permB_def applyMask_def Let_def
      split: option.splits prod.splits)

text \<open>
  Counterexample to claim C8 as stated: with two values in the block of \<open>a\<close> and three in
  the block of \<open>b\<close>, the permutation prepared for \<open>b\<close> has three indices, not two.
\<close>

theorem fill_permB_sized_from_A_counterexample:
  "fill_permB (Some ewise_a) (Some ewise_b3) = Inr [0, 1, 2]
   \<and> fill_permB (Some ewise_a) (Some ewise_b3) \<noteq> Inr [0..<blk_nvals ewise_a]"
  by (simp add: fill_permB_def ewise_a_def ewise_b3_def VectorCOO_Make_def upt_rec numeral_eq_Suc)

text \<open>
  Claim C8, amended. Whether the permutation indices of \<open>b\<close> are filled is decided by the
  block of \<open>a\<close>, not by the block of \<open>b\<close>: with no block of \<open>a\<close> the permutation stays
  empty, and with a block of \<open>a\<close> but no block of \<open>b\<close> the null block of \<open>b\<close> is
  dereferenced. When the permutation is filled, its size is the number of values of the
  block of \<open>b\<close> itself: it is \<open>0, \<dots>, nnz(b) - 1\<close>.
\<close>

theorem fill_permB_sized_from_B:
  "(\<forall>A B. blockA = Some A \<and> blockB = Some B \<longrightarrow>
       fill_permB blockA blockB = Inr [0..<blk_nvals B])
   \<and> (blockA = None \<longrightarrow> fill_permB blockA blockB = Inr [])
   \<and> (blockA \<noteq> None \<and> blockB = None \<longrightarrow> fill_permB blockA blockB = Inl NullDeref)"
  by (auto simp: fill_permB_def)

text \<open>Witness for the amended C8: each of the three cases at concrete blocks.\<close>

theorem fill_permB_sized_from_B_witness:
  "fill_permB (Some ewise_a) (Some ewise_b3) = Inr [0..<blk_nvals ewise_b3]
   \<and> blk_nvals ewise_b3 = 3 \<and> blk_nvals ewise_a = 2
   \<and> fill_permB None (Some ewise_b3) = Inr []
   \<and> fill_permB (Some ewise_a) None = Inl NullDeref"
  using fill_permB_sized_from_B [of "Some ewise_a" "Some ewise_b3"]
    fill_permB_sized_from_B [of None "Some ewise_b3"]
    fill_permB_sized_from_B [of "Some ewise_a" None]
  by (simp add: ewise_a_def ewise_b3_def VectorCOO_Make_def)

section \<open>Properties of the matrix-market loader\<close>

text \<open>One turn of the second loop at a line that it passes, and the loop over lines that it all passes.\<close>

lemma parse_lines_step_accepted:
  assumes "accepted exi exv rsl igv nrows ncols l"
  shows "parse_lines exi exv rsl igv nrows ncols (l # rest) lineN nnz rows cols vals =
     parse_lines exi exv rsl igv nrows ncols rest (lineN + 1)
       (if rsl \<and> is_loop exi l then nnz - 1 else nnz)
       (if rsl \<and> is_loop exi l then rows else rows @ [the (row_index exi l)])
       (if rsl \<and> is_loop exi l then cols else cols @ [the (col_index exi l)])
       (if (rsl \<and> is_loop exi l) \<or> igv then vals
        else vals @ [the (read_value exv (value_text exi l))])"
proof -
  obtain ci cj s where ri: "read_indices exi l = (ci, cj, s)"
    by (cases "read_indices exi l") auto
  from assms ri obtain i j where ij: "ci = Some i" "cj = Some j"
    and b: "1 \<le> i" "i \<le> nrows" "1 \<le> j" "j \<le> ncols"
    by (auto simp: accepted_def in_bounds_def row_index_def col_index_def split: option.splits)
  have v: "(rsl \<and> i = j) \<or> igv \<or> read_value exv s \<noteq> None"
    using assms ri ij
    by (auto simp: accepted_def is_loop_def row_index_def col_index_def value_text_def)
  have lp: "is_loop exi l \<longleftrightarrow> i = j"
    using ri ij by (auto simp: is_loop_def row_index_def col_index_def)
  have idx: "row_index exi l = Some i" "col_index exi l = Some j" "value_text exi l = s"
    using ri ij by (simp_all add: row_index_def col_index_def value_text_def)
  show ?thesis
  proof (cases "rsl \<and> i = j")
    case True
    then show ?thesis using ri ij b lp by simp
  next
    case False
    show ?thesis
    proof (cases igv)
      case True
      then show ?thesis using ri ij b lp idx False by auto
    next
      case nv: False
      with v False obtain x where "read_value exv s = Some x" by auto
      then show ?thesis using ri ij b lp idx False nv by auto
    qed
  qed
qed

lemma parse_lines_accepted:
  assumes "\<forall>l \<in> set lines. accepted exi exv rsl igv nrows ncols l"
  shows "parse_lines exi exv rsl igv nrows ncols lines lineN nnz rows cols vals =
     Inr (nnz - of_nat (length (removed_lines rsl exi lines)),
          rows @ map (\<lambda>l. the (row_index exi l)) (emitted_lines rsl exi lines),
          cols @ map (\<lambda>l. the (col_index exi l)) (emitted_lines rsl exi lines),
          (if igv then vals
           else vals @ map (\<lambda>l. the (read_value exv (value_text exi l)))
                         (emitted_lines rsl exi lines)))"
  using assms
proof (induction lines arbitrary: lineN nnz rows cols vals)
  case Nil
  then show ?case by (simp add: removed_lines_def emitted_lines_def)
next
  case (Cons line rest)
  from Cons.prems have a: "accepted exi exv rsl igv nrows ncols line"
    and r: "\<forall>l \<in> set rest. accepted exi exv rsl igv nrows ncols l" by simp_all
  show ?case
    unfolding parse_lines_step_accepted [OF a] Cons.IH [OF r]
    by (auto simp: removed_lines_def emitted_lines_def algebra_simps)
qed
















text \<open>Conversely, the load succeeds when the loop passes every line and the count agrees.\<close>

lemma Load_succeeds:
  assumes hdr: "read_header exs (header_line input) = Some (nrows, ncols, d :: 's::len word)"
    and b: "\<forall>l \<in> set (data_lines input). accepted exi exv rsl igv nrows ncols l"
    and n: "length (emitted_lines rsl exi (data_lines input))
        = unat (d - of_nat (length (removed_lines rsl exi (data_lines input))))"
  shows "\<exists>ld. Load exs exi exv TYPE('s) input mu rsl igv = Inr ld"
  using hdr n
  by (simp add: Load_def Let_def
      parse_lines_accepted [OF b, of "header_lineN input" d "[]" "[]" "[]"])

text \<open>The file of the example.\<close>

lemmas loader_eval = Load_def header_line_def data_lines_def header_lineN_def
  is_comment_def read_header_def read_indices_def read_value_def extract_decimal_def
  split_number_def digits_value_def is_blank_def digit_of_def value_decimal_def Let_def


text \<open>
  An empty line leaves both indices unwritten, and a header without a count leaves
  \<open>nnz\<close> unwritten: the program reads an indeterminate value, and the model says so.
\<close>

lemma mtx_blank_line_Load:
  "Load (extract_decimal (2 ^ 64)) (extract_decimal (2 ^ 32)) value_decimal TYPE(64)
      mtx_blank_line False True False = Inl Indeterminate"
  by (simp add: mtx_blank_line_def loader_eval)

lemma mtx_short_header_Load:
  "Load (extract_decimal (2 ^ 64)) (extract_decimal (2 ^ 32)) value_decimal TYPE(64)
      mtx_short_header False True False = Inl Indeterminate"
  by (simp add: mtx_short_header_def loader_eval)


text \<open>The decimal extraction at a sign, at a number that does not fit, and at no number.\<close>

lemma extract_decimal_signs:
  "extract_decimal (2 ^ 32) ''+3 4'' = Extracted 3 '' 4''"
  "extract_decimal (2 ^ 32) ''-1'' = Extracted 4294967295 []"
  "extract_decimal (2 ^ 32) ''4294967296'' = NotExtracted 4294967295"
  "extract_decimal (2 ^ 32) ''x'' = NotExtracted 0"
  "extract_decimal (2 ^ 32) ''  '' = Unwritten"
  by (simp_all add: extract_decimal_def split_number_def digits_value_def is_blank_def
      digit_of_def Let_def)

lemma value_decimal_range:
  "value_decimal ''99999999999'' = Some 2147483647"
  "value_decimal ''-99999999999'' = Some (- 2147483648)"
  "value_decimal ''-7'' = Some (- 7)"
  "value_decimal [] = None"
  by (simp_all add: value_decimal_def split_number_def digits_value_def is_blank_def
      digit_of_def Let_def)



section \<open>Properties of the masked vector-matrix product\<close>

lemma atomic_update_length:
  "length (atomic_update ee mul add sel vx Aj Ax msk r item) = length r"
  by (cases item) (simp add: atomic_update_def Let_def)

lemma atomic_update_nth:
  assumes "j < length r"
  shows "atomic_update ee mul add sel vx Aj Ax msk r (k, p) ! j =
     (if Aj ! p = j \<and> sel (msk ! j) then add (r ! j) (mul (vx ! k) (Ax ! p)) else r ! j)"
  using assms by (cases "Aj ! p = j") (auto simp: atomic_update_def Let_def)

lemma foldl_atomic_update_nth:
  assumes "j < length r"
  shows "foldl (atomic_update ee mul add sel vx Aj Ax msk) r items ! j =
     (if sel (msk ! j) then foldl add (r ! j) (column_products mul vx Aj Ax j items) else r ! j)"
  using assms
proof (induction items arbitrary: r)
  case Nil
  then show ?case by (simp add: column_products_def)
next
  case (Cons item rest)
  obtain k p where item: "item = (k, p)" by (cases item)
  let ?r = "atomic_update ee mul add sel vx Aj Ax msk r item"
  have len: "j < length ?r" using Cons.prems by (simp add: atomic_update_length)
  have nth: "?r ! j = (if Aj ! p = j \<and> sel (msk ! j) then add (r ! j) (mul (vx ! k) (Ax ! p)) else r ! j)"
    unfolding item by (rule atomic_update_nth [OF Cons.prems])
  have "foldl (atomic_update ee mul add sel vx Aj Ax msk) r (item # rest) ! j =
      (if sel (msk ! j) then foldl add (?r ! j) (column_products mul vx Aj Ax j rest) else ?r ! j)"
    using Cons.IH [OF len] by simp
  then show ?case
    unfolding nth by (simp add: column_products_def item)
qed

lemma vxm_prepare_replicate: "length g_r = n \<Longrightarrow> vxm_prepare g_r init n = replicate n init"
  by (simp add: vxm_prepare_def)

lemma foldl_AC_mset:
  fixes f :: "'a \<Rightarrow> 'a \<Rightarrow> 'a"
  assumes comm: "\<And>a b. f a b = f b a" and assoc: "\<And>a b c. f (f a b) c = f a (f b c)"
    and m: "mset xs = mset ys"
  shows "foldl f a xs = foldl f a ys"
proof -
  have c: "(\<lambda>acc. f acc x) \<circ> (\<lambda>acc. f acc y) = (\<lambda>acc. f acc y) \<circ> (\<lambda>acc. f acc x)" for x y
  proof
    fix acc
    have "f (f acc y) x = f acc (f y x)" by (rule assoc)
    also have "\<dots> = f acc (f x y)" by (simp add: comm [of y x])
    also have "\<dots> = f (f acc x) y" by (rule assoc [symmetric])
    finally show "((\<lambda>acc. f acc x) \<circ> (\<lambda>acc. f acc y)) acc = ((\<lambda>acc. f acc y) \<circ> (\<lambda>acc. f acc x)) acc"
      by simp
  qed
  have "fold (\<lambda>x acc. f acc x) xs = fold (\<lambda>x acc. f acc x) ys"
    by (rule fold_multiset_equiv) (simp_all add: c m)
  then show ?thesis by (simp add: foldl_conv_fold)
qed

lemma column_products_mset:
  assumes "mset items' = mset items"
  shows "mset (column_products mul vx Aj Ax j items') = mset (column_products mul vx Aj Ax j items)"
proof -
  have "mset (filter (\<lambda>(k, p). Aj ! p = j) items') = mset (filter (\<lambda>(k, p). Aj ! p = j) items)"
    using assms by (simp only: mset_filter)
  then have "image_mset (\<lambda>(k, p). mul (vx ! k) (Ax ! p)) (mset (filter (\<lambda>(k, p). Aj ! p = j) items'))
      = image_mset (\<lambda>(k, p). mul (vx ! k) (Ax ! p)) (mset (filter (\<lambda>(k, p). Aj ! p = j) items))"
    by (rule arg_cong)
  then show ?thesis
    by (simp only: column_products_def mset_map)
qed


lemma work_items_iff:
  "(k, p) \<in> set (work_items v_fill g_vx g_Ap n) \<longleftrightarrow>
     k < n \<and> g_vx ! k \<noteq> v_fill \<and> g_Ap ! k \<le> p \<and> p < g_Ap ! (k + 1)"
  by (fastforce simp: work_items_def row_items_def split: if_splits)

lemma execute_scalar_nth:
  assumes len: "length (cl_Ax p_cl_r) = r_rows" and j: "j < r_rows"
  shows "cl_Ax (snd (execute_scalar True schedule ee mul add sel init p_cl_r r_rows p_cl_mask p_cl_M
            p_cl_v v_rows v_fill)) ! j =
     (if sel (cl_Ax p_cl_mask ! j)
      then foldl add init (column_products mul (cl_Ax p_cl_v) (csr_Aj p_cl_M) (csr_Ax p_cl_M) j
             (schedule (work_items v_fill (cl_Ax p_cl_v) (csr_Ap p_cl_M) v_rows)))
      else init)"
proof -
  have "j < length (replicate r_rows init)" using j by simp
  from foldl_atomic_update_nth [OF this, of ee mul add sel "cl_Ax p_cl_v" "csr_Aj p_cl_M"
      "csr_Ax p_cl_M" "cl_Ax p_cl_mask"
      "schedule (work_items v_fill (cl_Ax p_cl_v) (csr_Ap p_cl_M) v_rows)"] j
  show ?thesis
    by (simp add: execute_scalar_def Let_def vxm_atomic_scalar_def vxm_prepare_replicate [OF len])
qed

lemma execute_scalar_length:
  assumes len: "length (cl_Ax p_cl_r) = r_rows"
  shows "length (cl_Ax (snd (execute_scalar True schedule ee mul add sel init p_cl_r r_rows
            p_cl_mask p_cl_M p_cl_v v_rows v_fill))) = r_rows"
proof -
  have "length (foldl (atomic_update ee mul add sel vx Aj Ax msk) r items) = length r"
    for vx Aj Ax msk r items
    by (induction items arbitrary: r) (simp_all add: atomic_update_length)
  then show ?thesis
    by (simp add: execute_scalar_def Let_def vxm_atomic_scalar_def vxm_prepare_replicate [OF len])
qed

text \<open>
  Claim C1. Let the buffer of \<open>r\<close> have one element for each column, and let the schedule
  be a permutation of the work items. Then \<^verbatim>\<open>execute_scalar\<close> returns \<open>Ok\<close> and, for
  every column \<open>j\<close>: if the select operator accepts \<open>mask[j]\<close>, then \<open>r[j]\<close> is \<open>init\<close>
  combined by \<open>\<oplus>\<close>, from the left, with the products \<open>v[k] \<otimes> M[k,j]\<close> in the order of the
  schedule; otherwise \<open>r[j] = init\<close>. The products are, as a multiset, those of all
  positions \<open>p\<close> of a row \<open>k\<close> with column index \<open>j\<close> such that \<open>v[k]\<close> exists; for an
  associative and commutative \<open>\<oplus>\<close> the value of \<open>r[j]\<close> is therefore the same for every
  schedule, and equal to the reduction in ascending order of \<open>k\<close>.
\<close>

theorem execute_scalar_contract:
  assumes len: "length (cl_Ax p_cl_r) = r_rows"
    and perm: "mset (schedule (work_items v_fill (cl_Ax p_cl_v) (csr_Ap p_cl_M) v_rows))
        = mset (work_items v_fill (cl_Ax p_cl_v) (csr_Ap p_cl_M) v_rows)"
  shows "fst (execute_scalar True schedule early_exit op_multiply op_add op_select init p_cl_r r_rows
            p_cl_mask p_cl_M p_cl_v v_rows v_fill) = Ok
    \<and> (\<forall>j < r_rows.
          (op_select (cl_Ax p_cl_mask ! j) \<longrightarrow>
             cl_Ax (snd (execute_scalar True schedule early_exit op_multiply op_add op_select init
                 p_cl_r r_rows p_cl_mask p_cl_M p_cl_v v_rows v_fill)) ! j
             = foldl op_add init (column_products op_multiply (cl_Ax p_cl_v) (csr_Aj p_cl_M)
                 (csr_Ax p_cl_M) j (schedule (work_items v_fill (cl_Ax p_cl_v) (csr_Ap p_cl_M) v_rows))))
        \<and> (\<not> op_select (cl_Ax p_cl_mask ! j) \<longrightarrow>
             cl_Ax (snd (execute_scalar True schedule early_exit op_multiply op_add op_select init
                 p_cl_r r_rows p_cl_mask p_cl_M p_cl_v v_rows v_fill)) ! j = init)
        \<and> mset (column_products op_multiply (cl_Ax p_cl_v) (csr_Aj p_cl_M) (csr_Ax p_cl_M) j
                 (schedule (work_items v_fill (cl_Ax p_cl_v) (csr_Ap p_cl_M) v_rows)))
            = mset (column_products op_multiply (cl_Ax p_cl_v) (csr_Aj p_cl_M) (csr_Ax p_cl_M) j
                 (work_items v_fill (cl_Ax p_cl_v) (csr_Ap p_cl_M) v_rows))
        \<and> ((\<forall>a b. op_add a b = op_add b a) \<and> (\<forall>a b c. op_add (op_add a b) c = op_add a (op_add b c))
             \<and> op_select (cl_Ax p_cl_mask ! j) \<longrightarrow>
             cl_Ax (snd (execute_scalar True schedule early_exit op_multiply op_add op_select init
                 p_cl_r r_rows p_cl_mask p_cl_M p_cl_v v_rows v_fill)) ! j
             = foldl op_add init (column_products op_multiply (cl_Ax p_cl_v) (csr_Aj p_cl_M)
                 (csr_Ax p_cl_M) j (work_items v_fill (cl_Ax p_cl_v) (csr_Ap p_cl_M) v_rows))))
    \<and> (\<forall>k p. (k, p) \<in> set (work_items v_fill (cl_Ax p_cl_v) (csr_Ap p_cl_M) v_rows) \<longleftrightarrow>
          k < v_rows \<and> cl_Ax p_cl_v ! k \<noteq> v_fill
          \<and> csr_Ap p_cl_M ! k \<le> p \<and> p < csr_Ap p_cl_M ! (k + 1))"
proof -
  let ?ws = "work_items v_fill (cl_Ax p_cl_v) (csr_Ap p_cl_M) v_rows"
  let ?res = "cl_Ax (snd (execute_scalar True schedule early_exit op_multiply op_add op_select init
      p_cl_r r_rows p_cl_mask p_cl_M p_cl_v v_rows v_fill))"
  let ?cp = "column_products op_multiply (cl_Ax p_cl_v) (csr_Aj p_cl_M) (csr_Ax p_cl_M)"
  have 1: "fst (execute_scalar True schedule early_exit op_multiply op_add op_select init p_cl_r r_rows
            p_cl_mask p_cl_M p_cl_v v_rows v_fill) = Ok"
    by (simp add: execute_scalar_def Let_def)
  have 2: "\<forall>j < r_rows.
          (op_select (cl_Ax p_cl_mask ! j) \<longrightarrow> ?res ! j = foldl op_add init (?cp j (schedule ?ws)))
        \<and> (\<not> op_select (cl_Ax p_cl_mask ! j) \<longrightarrow> ?res ! j = init)
        \<and> mset (?cp j (schedule ?ws)) = mset (?cp j ?ws)
        \<and> ((\<forall>a b. op_add a b = op_add b a) \<and> (\<forall>a b c. op_add (op_add a b) c = op_add a (op_add b c))
             \<and> op_select (cl_Ax p_cl_mask ! j) \<longrightarrow>
             ?res ! j = foldl op_add init (?cp j ?ws))"
  proof (intro allI impI)
    fix j assume j: "j < r_rows"
    have a: "op_select (cl_Ax p_cl_mask ! j) \<longrightarrow> ?res ! j = foldl op_add init (?cp j (schedule ?ws))"
      using j by (simp add: execute_scalar_nth [OF len])
    have b: "\<not> op_select (cl_Ax p_cl_mask ! j) \<longrightarrow> ?res ! j = init"
      using j by (simp add: execute_scalar_nth [OF len])
    have c: "mset (?cp j (schedule ?ws)) = mset (?cp j ?ws)"
      by (rule column_products_mset [OF perm])
    have d: "(\<forall>a b. op_add a b = op_add b a) \<and> (\<forall>a b c. op_add (op_add a b) c = op_add a (op_add b c))
             \<and> op_select (cl_Ax p_cl_mask ! j) \<longrightarrow>
             ?res ! j = foldl op_add init (?cp j ?ws)"
    proof
      assume ac: "(\<forall>a b. op_add a b = op_add b a)
          \<and> (\<forall>a b c. op_add (op_add a b) c = op_add a (op_add b c))
          \<and> op_select (cl_Ax p_cl_mask ! j)"
      have "foldl op_add init (?cp j (schedule ?ws)) = foldl op_add init (?cp j ?ws)"
        using ac by (intro foldl_AC_mset c) auto
      with a ac show "?res ! j = foldl op_add init (?cp j ?ws)" by simp
    qed
    from a b c d
    show "(op_select (cl_Ax p_cl_mask ! j) \<longrightarrow> ?res ! j = foldl op_add init (?cp j (schedule ?ws)))
        \<and> (\<not> op_select (cl_Ax p_cl_mask ! j) \<longrightarrow> ?res ! j = init)
        \<and> mset (?cp j (schedule ?ws)) = mset (?cp j ?ws)
        \<and> ((\<forall>a b. op_add a b = op_add b a) \<and> (\<forall>a b c. op_add (op_add a b) c = op_add a (op_add b c))
             \<and> op_select (cl_Ax p_cl_mask ! j) \<longrightarrow>
             ?res ! j = foldl op_add init (?cp j ?ws))"
      by (intro conjI)
  qed
  have 3: "\<forall>k p. (k, p) \<in> set ?ws \<longleftrightarrow>
          k < v_rows \<and> cl_Ax p_cl_v ! k \<noteq> v_fill
          \<and> csr_Ap p_cl_M ! k \<le> p \<and> p < csr_Ap p_cl_M ! (k + 1)"
    by (simp add: work_items_iff)
  show ?thesis
    by (rule conjI [OF 1 conjI [OF 2 3]])
qed

text \<open>
  Witness for C1: one level of breadth-first search on a path of four vertices, with
  the schedule that reverses the work items; the result is \<open>[0, 1, 0, 0]\<close>.
\<close>

theorem execute_scalar_contract_witness:
  "length (cl_Ax \<lparr>cl_Ax = [True, True, True, True]\<rparr>) = 4
   \<and> mset (rev (work_items False (cl_Ax bfs_v) (csr_Ap bfs_M) 4))
       = mset (work_items False (cl_Ax bfs_v) (csr_Ap bfs_M) 4)
   \<and> execute_scalar True rev False (\<and>) (\<or>) (\<lambda>x. x) False \<lparr>cl_Ax = [True, True, True, True]\<rparr> 4
        bfs_mask bfs_M bfs_v 4 False
       = (Ok, \<lparr>cl_Ax = [False, True, False, False]\<rparr>)
   \<and> foldl (\<or>) False (column_products (\<and>) (cl_Ax bfs_v) (csr_Aj bfs_M) (csr_Ax bfs_M) 1
        (work_items False (cl_Ax bfs_v) (csr_Ap bfs_M) 4)) = True"
proof -
  have l: "length (cl_Ax \<lparr>cl_Ax = [True, True, True, True]\<rparr>) = 4" by simp
  have p: "mset (rev (work_items False (cl_Ax bfs_v) (csr_Ap bfs_M) 4))
       = mset (work_items False (cl_Ax bfs_v) (csr_Ap bfs_M) 4)" by simp
  have w: "work_items False (cl_Ax bfs_v) (csr_Ap bfs_M) 4 = [(0, 0)]"
    by (simp add: work_items_def row_items_def bfs_v_def bfs_M_def upt_rec numeral_eq_Suc)
  have e: "execute_scalar True rev False (\<and>) (\<or>) (\<lambda>x. x) False \<lparr>cl_Ax = [True, True, True, True]\<rparr> 4
        bfs_mask bfs_M bfs_v 4 False
       = (Ok, \<lparr>cl_Ax = [False, True, False, False]\<rparr>)"
    by (simp add: execute_scalar_def Let_def vxm_atomic_scalar_def vxm_prepare_def
        work_items_def row_items_def upt_rec
        atomic_update_def bfs_v_def bfs_M_def bfs_mask_def numeral_eq_Suc)
  from execute_scalar_contract [where p_cl_r = "\<lparr>cl_Ax = [True, True, True, True]\<rparr>"
      and r_rows = 4 and schedule = rev and v_fill = False and p_cl_v = bfs_v and p_cl_M = bfs_M
      and v_rows = 4 and early_exit = False and op_multiply = "(\<and>)" and op_add = "(\<or>)"
      and op_select = "\<lambda>x. x" and init = False and p_cl_mask = bfs_mask]
    l p e w
  show ?thesis
    by (simp add: column_products_def bfs_v_def bfs_M_def)
qed

end
